theory Spec2Isabelle
  imports Main "HOL-Library.Sublist"
begin

section \<open>Go standard library functions the bot calls\<close>

text \<open>
  The bot is four Go programs that share one flow: \<^verbatim>\<open>src/main.go\<close> (long polling,
  tgbotapi, no context), the first program of \<^verbatim>\<open>src/unnamed/part_000\<close> (go-telegram/bot,
  started with \<^verbatim>\<open>b.Start\<close>; suffix \<open>_p0a\<close> below), the second program of
  \<^verbatim>\<open>part_000\<close> (tgbotapi with a context; suffix \<open>_p0b\<close>) and \<^verbatim>\<open>src/unnamed/part_001\<close>
  (go-telegram/bot behind a webhook; suffix \<open>_p1\<close>).

  Strings are byte lists, as Go's are. The functions of this section are not code of the
  repository: they are the Unix versions of the library functions the programs call,
  written after the library's documented behaviour.
\<close>

type_synonym path = string

text \<open>
  \<^verbatim>\<open>filepath.Ext\<close>: scan from the last byte towards the first, stop at a separator, return
  the suffix that starts at the first dot met. The scan runs over the reversed path;
  \<open>acc\<close> is the part of the path behind the byte under inspection.
\<close>

fun Ext_scan :: "string \<Rightarrow> string \<Rightarrow> string" where
  "Ext_scan [] acc = []"
| "Ext_scan (c # cs) acc =
     (if c = CHR ''/'' then []
      else if c = CHR ''.'' then c # acc
      else Ext_scan cs (c # acc))"

definition filepath_Ext :: "path \<Rightarrow> string" where
  "filepath_Ext p = Ext_scan (rev p) []"

text \<open>\<^verbatim>\<open>strings.Split(p, "/")\<close> and \<^verbatim>\<open>strings.Join(elems, "/")\<close>.\<close>

fun splitSlash :: "string \<Rightarrow> string list" where
  "splitSlash [] = [[]]"
| "splitSlash (c # cs) =
     (if c = CHR ''/'' then [] # splitSlash cs
      else (case splitSlash cs of [] \<Rightarrow> [[c]] | e # es \<Rightarrow> (c # e) # es))"

fun joinSlash :: "string list \<Rightarrow> string" where
  "joinSlash [] = []"
| "joinSlash [e] = e"
| "joinSlash (e # es) = e @ ''/'' @ joinSlash es"

text \<open>
  \<^verbatim>\<open>filepath.Clean\<close>, element by element: empty elements and \<open>.\<close> are dropped; \<open>..\<close>
  removes the element before it when there is one that is not itself \<open>..\<close>; where there
  is none, a rooted path drops the \<open>..\<close> and a relative path keeps it. \<open>out\<close> is the
  output so far, last element first. The empty path cleans to \<open>.\<close>.
\<close>

fun clean_elems :: "bool \<Rightarrow> string list \<Rightarrow> string list \<Rightarrow> string list" where
  "clean_elems rooted [] out = rev out"
| "clean_elems rooted (e # es) out =
     (if e = [] \<or> e = ''.'' then clean_elems rooted es out
      else if e = ''..'' then
        (case out of
           [] \<Rightarrow> if rooted then clean_elems rooted es [] else clean_elems rooted es [''..'']
         | x # xs \<Rightarrow> if x = ''..'' then clean_elems rooted es (''..'' # out)
                     else clean_elems rooted es xs)
      else clean_elems rooted es (e # out))"

definition filepath_Clean :: "path \<Rightarrow> path" where
  "filepath_Clean p =
     (case p of
        [] \<Rightarrow> ''.''
      | c # cs \<Rightarrow>
          (let rooted = (c = CHR ''/'');
               elems = clean_elems rooted (splitSlash p) []
           in if rooted then ''/'' @ joinSlash elems
              else if elems = [] then ''.'' else joinSlash elems))"

text \<open>
  \<^verbatim>\<open>filepath.Join\<close>: the elements from the first non-empty one on, joined with a slash
  and cleaned; the empty string when every element is empty.
\<close>

fun filepath_Join :: "string list \<Rightarrow> path" where
  "filepath_Join [] = []"
| "filepath_Join (e # es) =
     (if e \<noteq> [] then filepath_Clean (joinSlash (e # es)) else filepath_Join es)"

text \<open>\<^verbatim>\<open>os.TempDir\<close>: the value of \<^verbatim>\<open>$TMPDIR\<close>, or \<^verbatim>\<open>/tmp\<close> when that is empty.\<close>

definition os_TempDir :: "string \<Rightarrow> path" where
  "os_TempDir tmpdir = (if tmpdir = [] then ''/tmp'' else tmpdir)"

text \<open>The verb \<^verbatim>\<open>%d\<close> of \<^verbatim>\<open>fmt.Sprintf\<close>: decimal digits, with a minus sign below zero.\<close>

fun digits :: "nat \<Rightarrow> string" where
  "digits n =
     (if n < 10 then [''0123456789'' ! n]
      else digits (n div 10) @ [''0123456789'' ! (n mod 10)])"

declare digits.simps [simp del]

definition fmt_d :: "int \<Rightarrow> string" where
  "fmt_d i = (if i < 0 then CHR ''-'' # digits (nat (- i)) else digits (nat i))"

section \<open>Data\<close>

text \<open>A Go \<^verbatim>\<open>error\<close> value, identified by the text its \<^verbatim>\<open>Error()\<close> method returns.\<close>

datatype err = Err string

fun Error :: "err \<Rightarrow> string" where
  "Error (Err msg) = msg"

text \<open>
  The error a bot client returns when the platform answers a request with status 400 and
  a description. go-telegram/bot (the client of the first program of \<^verbatim>\<open>part_000\<close> and of
  \<^verbatim>\<open>part_001\<close>) wraps its own \<^verbatim>\<open>ErrorBadRequest\<close>, whose text is \<^verbatim>\<open>bad request\<close>, around the
  description: \<^verbatim>\<open>fmt.Errorf("%w, %s", ErrorBadRequest, description)\<close>. tgbotapi (the client
  of \<^verbatim>\<open>main.go\<close> and of the second program of \<^verbatim>\<open>part_000\<close>) returns an error whose text is
  the description itself. Neither library is code of the repository.
\<close>

definition botpkg_bad_request :: "string \<Rightarrow> err" where
  "botpkg_bad_request description = Err (''bad request, '' @ description)"


text \<open>
  The fields of \<^verbatim>\<open>models.Video\<close> / \<^verbatim>\<open>models.Document\<close> (and of their tgbotapi
  counterparts) that the handlers read, and the message and update around them. A nil
  pointer is \<open>None\<close>. The chat identifier is an \<^verbatim>\<open>int64\<close>; no arithmetic is done on it, so
  it is kept as its integer value.
\<close>

record attachment =
  FileID :: string
  FileName :: string

record message =
  Chat_ID :: int
  Video :: "attachment option"
  Document :: "attachment option"

record update =
  Message :: "message option"

text \<open>
  A \<^verbatim>\<open>context.Context\<close> made by \<^verbatim>\<open>context.WithCancel\<close>, seen through the one thing the
  flow observes of it: the instant at which its cancel function fires (\<open>None\<close> when it
  never does). Time is counted in ticks of a global clock.
\<close>

datatype ctx = Ctx (done_at: "nat option")

text \<open>
  An \<^verbatim>\<open>exec.Cmd\<close>: the context it was built with (nil for \<^verbatim>\<open>exec.Command\<close>), the
  executable's name, and \<^verbatim>\<open>Args\<close>, which starts with that name.
\<close>

record Cmd =
  cmd_ctx :: "ctx option"
  cmd_name :: string
  cmd_args :: "string list"

definition exec_Command :: "string \<Rightarrow> string list \<Rightarrow> Cmd" where
  "exec_Command name arg = \<lparr>cmd_ctx = None, cmd_name = name, cmd_args = name # arg\<rparr>"

definition exec_CommandContext :: "ctx \<Rightarrow> string \<Rightarrow> string list \<Rightarrow> Cmd" where
  "exec_CommandContext c name arg = \<lparr>cmd_ctx = Some c, cmd_name = name, cmd_args = name # arg\<rparr>"

text \<open>An HTTP response as \<^verbatim>\<open>http.Get\<close> returns it without error, whatever its status.\<close>

record response =
  StatusCode :: nat
  Body :: string

text \<open>
  What is handed to the platform as a video note: either an upload read from a reader
  (\<^verbatim>\<open>models.InputFileUpload\<close>: a file opened at a path, or a \<^verbatim>\<open>bytes.Reader\<close> over given
  bytes), or a local path the client library opens itself (\<^verbatim>\<open>tgbotapi.FilePath\<close>).
\<close>

datatype reader = FileReader path | BytesReader string

datatype input_file = InputFileUpload string reader | FilePath path

record video_note =
  note_chat :: int
  note_data :: input_file
  note_length :: nat

text \<open>
  The external collaborators of one request: the environment variable, the bot token,
  and the answer of every call that leaves the program. \<open>signal_at\<close> is the tick at
  which the operating system delivers SIGINT or SIGTERM to the program (\<open>None\<close> when it
  never does), \<open>now\<close> the clock when the transcoder is started, \<open>proc_duration\<close> the
  ticks the process needs to exit by itself, \<open>proc_exit\<close> the error \<^verbatim>\<open>Wait\<close> reports when
  it does (\<open>None\<close> for exit status 0), and \<open>proc_writes\<close> the files the process has
  created by the time it is gone.
\<close>

record env =
  TMPDIR :: string
  Token :: string
  signal_at :: "nat option"
  bot_GetFile :: "string \<Rightarrow> err + string"
  http_Get :: "string \<Rightarrow> err + response"
  os_Create :: "path \<Rightarrow> err option"
  io_Copy :: "response \<Rightarrow> err option"
  cmd_StderrPipe :: "Cmd \<Rightarrow> err option"
  now :: nat
  proc_start :: "Cmd \<Rightarrow> err option"
  proc_duration :: nat
  proc_exit :: "err option"
  proc_writes :: "Cmd \<Rightarrow> path set"
  os_Open :: "path \<Rightarrow> err option"
  bot_SendVideoNote :: "video_note \<Rightarrow> err option"

text \<open>
  What a request leaves behind: the paths that exist on disk, the text messages handed
  to the bot client (chat, text) in order, the commands on which \<^verbatim>\<open>Start\<close> or \<^verbatim>\<open>Run\<close>
  was called, the commands whose running process was terminated with a kill before it
  exited by itself, and the video notes handed to the bot client.
\<close>

record state =
  files :: "path set"
  sent :: "(int \<times> string) list"
  execs :: "Cmd list"
  killed :: "Cmd list"
  vnotes :: "video_note list"

definition defaultVideoSize :: nat where
  "defaultVideoSize = 640"

definition voiceMsgRestrictionErr :: string where
  "voiceMsgRestrictionErr = ''Bad Request: VOICE_MESSAGES_FORBIDDEN''"

section \<open>Leaf operations\<close>

text \<open>
  \<^verbatim>\<open>os.Remove\<close>, taken to succeed: the path is gone afterwards. Its result is dropped
  by every caller.
\<close>

definition os_Remove :: "path \<Rightarrow> state \<Rightarrow> state" where
  "os_Remove p s = s\<lparr>files := files s - {p}\<rparr>"

text \<open>
  \<^verbatim>\<open>sendErrorMessage\<close> and \<^verbatim>\<open>sendProgressMessage\<close> (the same body in the three programs
  that have them): one message handed to the client, its result dropped.
\<close>

definition sendErrorMessage :: "int \<Rightarrow> string \<Rightarrow> state \<Rightarrow> state" where
  "sendErrorMessage chatID text s = s\<lparr>sent := sent s @ [(chatID, text)]\<rparr>"

definition sendProgressMessage :: "int \<Rightarrow> string \<Rightarrow> state \<Rightarrow> state" where
  "sendProgressMessage chatID text s = s\<lparr>sent := sent s @ [(chatID, text)]\<rparr>"

text \<open>
  \<^verbatim>\<open>downloadFile\<close> (the same body in all four programs): GET the file URL, create the
  destination, copy the body. The status code of the response is never read.
\<close>

definition downloadFile :: "env \<Rightarrow> string \<Rightarrow> path \<Rightarrow> state \<Rightarrow> err option \<times> state" where
  "downloadFile e filePath destPath s =
     (let url = ''https://api.telegram.org/file/bot'' @ Token e @ ''/'' @ filePath in
      case http_Get e url of
        Inl err \<Rightarrow> (Some err, s)
      | Inr resp \<Rightarrow>
          (case os_Create e destPath of
             Some err \<Rightarrow> (Some err, s)
           | None \<Rightarrow> (io_Copy e resp, s\<lparr>files := insert destPath (files s)\<rparr>)))"

text \<open>
  \<^verbatim>\<open>cmd.Start\<close>: a command whose context is already done is not started; otherwise the
  process is started, or starting it fails. \<^verbatim>\<open>cmd.Wait\<close>: when the command's context
  fires before the process exits, the process is terminated with a kill (the command
  joins \<open>killed\<close>) and \<^verbatim>\<open>Wait\<close> returns an error; otherwise the process runs to its own
  exit and \<^verbatim>\<open>Wait\<close> returns its exit error. A command without a context is never
  killed. \<^verbatim>\<open>cmd.Run\<close> is \<^verbatim>\<open>Start\<close> then \<^verbatim>\<open>Wait\<close>.
\<close>

definition ctx_done_by :: "ctx option \<Rightarrow> nat \<Rightarrow> bool" where
  "ctx_done_by c t =
     (case c of
        None \<Rightarrow> False
      | Some x \<Rightarrow> (case done_at x of None \<Rightarrow> False | Some d \<Rightarrow> d \<le> t))"

definition ctx_done_before :: "ctx option \<Rightarrow> nat \<Rightarrow> bool" where
  "ctx_done_before c t =
     (case c of
        None \<Rightarrow> False
      | Some x \<Rightarrow> (case done_at x of None \<Rightarrow> False | Some d \<Rightarrow> d < t))"

definition cmd_Start :: "env \<Rightarrow> Cmd \<Rightarrow> state \<Rightarrow> err option \<times> state" where
  "cmd_Start e cmd s =
     (let s' = s\<lparr>execs := execs s @ [cmd]\<rparr> in
      if ctx_done_by (cmd_ctx cmd) (now e) then (Some (Err ''context canceled''), s')
      else (proc_start e cmd, s'))"

definition cmd_Wait :: "env \<Rightarrow> Cmd \<Rightarrow> state \<Rightarrow> err option \<times> state" where
  "cmd_Wait e cmd s =
     (let s' = s\<lparr>files := files s \<union> proc_writes e cmd\<rparr> in
      if ctx_done_before (cmd_ctx cmd) (now e + proc_duration e)
      then (Some (Err ''signal: killed''), s'\<lparr>killed := killed s' @ [cmd]\<rparr>)
      else (proc_exit e, s'))"

definition cmd_Run :: "env \<Rightarrow> Cmd \<Rightarrow> state \<Rightarrow> err option \<times> state" where
  "cmd_Run e cmd s =
     (case cmd_Start e cmd s of
        (Some err, s') \<Rightarrow> (Some err, s')
      | (None, s') \<Rightarrow> cmd_Wait e cmd s')"

text \<open>The filter argument; the Go literal \<^verbatim>\<open>"\\,"\<close> is a backslash and a comma.\<close>

definition crop_filter :: string where
  "crop_filter = ''crop=min(iw'' @ [CHR 0x5C] @ '',ih):min(iw'' @ [CHR 0x5C] @ '',ih)''"

text \<open>
  \<^verbatim>\<open>makeCircularVideo\<close> of \<^verbatim>\<open>part_000\<close> (both programs) and \<^verbatim>\<open>part_001\<close>: the command is
  built with the caller's context. The goroutine that logs the process's stderr changes
  nothing in the state.
\<close>

definition ffmpeg_cmd :: "ctx \<Rightarrow> path \<Rightarrow> path \<Rightarrow> Cmd" where
  "ffmpeg_cmd c inputPath outputPath =
     exec_CommandContext c ''ffmpeg''
       [''-i'', inputPath,
        ''-vf'', crop_filter @ '',scale='' @ fmt_d (int defaultVideoSize) @ '':''
                 @ fmt_d (int defaultVideoSize) @ '',format=yuv420p'',
        ''-c:a'', ''copy'',
        ''-y'',
        outputPath]"

definition makeCircularVideo :: "env \<Rightarrow> ctx \<Rightarrow> path \<Rightarrow> path \<Rightarrow> state \<Rightarrow> err option \<times> state" where
  "makeCircularVideo e c inputPath outputPath s =
     (let cmd = ffmpeg_cmd c inputPath outputPath in
      case cmd_StderrPipe e cmd of
        Some err \<Rightarrow> (Some err, s)
      | None \<Rightarrow>
          (case cmd_Start e cmd s of
             (Some err, s') \<Rightarrow> (Some err, s')
           | (None, s') \<Rightarrow> cmd_Wait e cmd s'))"

text \<open>\<^verbatim>\<open>makeCircularVideo\<close> of \<^verbatim>\<open>main.go\<close>: \<^verbatim>\<open>exec.Command\<close>, no context, \<^verbatim>\<open>cmd.Run\<close>.\<close>

definition ffmpeg_cmd_main :: "path \<Rightarrow> path \<Rightarrow> Cmd" where
  "ffmpeg_cmd_main inputPath outputPath =
     exec_Command ''ffmpeg''
       [''-i'', inputPath,
        ''-vf'', crop_filter @ '',scale=640:640,format=yuv420p'',
        ''-c:a'', ''copy'',
        ''-y'',
        outputPath]"

definition makeCircularVideo_main :: "env \<Rightarrow> path \<Rightarrow> path \<Rightarrow> state \<Rightarrow> err option \<times> state" where
  "makeCircularVideo_main e inputPath outputPath s =
     cmd_Run e (ffmpeg_cmd_main inputPath outputPath) s"

text \<open>
  \<^verbatim>\<open>fileReader\<close> of the first program of \<^verbatim>\<open>part_000\<close>: an open failure is swallowed and
  a reader over no bytes returned. \<^verbatim>\<open>fileReader\<close> of \<^verbatim>\<open>part_001\<close> returns the failure.
\<close>

definition fileReader_p0a :: "env \<Rightarrow> path \<Rightarrow> reader" where
  "fileReader_p0a e p =
     (case os_Open e p of
        Some err \<Rightarrow> BytesReader []
      | None \<Rightarrow> FileReader p)"

definition fileReader_p1 :: "env \<Rightarrow> path \<Rightarrow> err + reader" where
  "fileReader_p1 e p =
     (case os_Open e p of
        Some err \<Rightarrow> Inl err
      | None \<Rightarrow> Inr (FileReader p))"

section \<open>The request pipeline\<close>

text \<open>
  The head of \<^verbatim>\<open>handleVideo\<close> in \<^verbatim>\<open>part_000\<close> (both programs) and \<^verbatim>\<open>part_001\<close>: the
  file ID and display name come from the video when there is one, else from the
  document; with neither there is nothing to process.
\<close>

definition selectAttachment :: "message \<Rightarrow> (string \<times> string) option" where
  "selectAttachment message =
     (case Video message of
        Some v \<Rightarrow> Some (FileID v, FileName v)
      | None \<Rightarrow>
          (case Document message of
             Some d \<Rightarrow> Some (FileID d, FileName d)
           | None \<Rightarrow> None))"

text \<open>The name normalisation that follows it, the same in the three programs.\<close>

definition normalizeName :: "string \<Rightarrow> string" where
  "normalizeName fileName =
     (if fileName = [] then ''video.mp4''
      else if filepath_Ext fileName = [] then fileName @ ''.mp4''
      else fileName)"

text \<open>
  The two temp paths of these programs, from the temp directory, the chat identifier
  and the normalised name: \<^verbatim>\<open>filepath.Join(os.TempDir(), fmt.Sprintf("input_%d_%s", chatID, fileName))\<close>
  and \<^verbatim>\<open>filepath.Join(os.TempDir(), "output_"+fileName)\<close>.
\<close>

definition inputPath_of :: "path \<Rightarrow> int \<Rightarrow> string \<Rightarrow> path" where
  "inputPath_of tmp chatID fileName =
     filepath_Join [tmp, ''input_'' @ fmt_d chatID @ ''_'' @ fileName]"

definition outputPath_of :: "path \<Rightarrow> string \<Rightarrow> path" where
  "outputPath_of tmp fileName = filepath_Join [tmp, ''output_'' @ fileName]"

text \<open>The fixed texts.\<close>

definition txt_valid :: string where
  "txt_valid = ''Please send a valid video file.''"

definition txt_process :: string where
  "txt_process = ''Failed to process the video. Please try again.''"

definition txt_download :: string where
  "txt_download = ''Failed to download the video. Please try again.''"

definition txt_downloaded :: string where
  "txt_downloaded = ''Video downloaded. Processing...''"

definition txt_processed :: string where
  "txt_processed = ''Video processed. Sending...''"

definition txt_open :: string where
  "txt_open = ''Failed to open the processed video. Please try again.''"

definition txt_forbidden :: string where
  "txt_forbidden = ''It seems that I don't have permission to send video notes. Please check if you allow sending voice messages in the settings.''"

definition txt_send :: string where
  "txt_send = ''Failed to send the processed video. Please try again.''"

definition txt_instruct :: string where
  "txt_instruct = ''Please send a video file to make it circular.''"

text \<open>
  \<^verbatim>\<open>handleVideo\<close>, first program of \<^verbatim>\<open>part_000\<close>. A \<^verbatim>\<open>defer os.Remove(p)\<close> runs when the
  function returns, on every return that follows its registration: it is written as
  \<open>os_Remove p\<close> around the rest of the body from that point on. The returns before the
  registration stay outside it.
\<close>

definition handleVideo_p0a :: "env \<Rightarrow> ctx \<Rightarrow> message \<Rightarrow> state \<Rightarrow> state" where
  "handleVideo_p0a e c message s =
     (let chatID = Chat_ID message in
      case selectAttachment message of
        None \<Rightarrow> sendErrorMessage chatID txt_valid s
      | Some (fileID, fileName0) \<Rightarrow>
          (let fileName = normalizeName fileName0 in
           case bot_GetFile e fileID of
             Inl err \<Rightarrow> sendErrorMessage chatID txt_process s
           | Inr filePath \<Rightarrow>
               (let inputPath = inputPath_of (os_TempDir (TMPDIR e)) chatID fileName in
                case downloadFile e filePath inputPath s of
                  (Some err, s1) \<Rightarrow> sendErrorMessage chatID txt_download s1
                | (None, s1) \<Rightarrow>
                    os_Remove inputPath
                      (let s2 = sendProgressMessage chatID txt_downloaded s1;
                           outputPath = outputPath_of (os_TempDir (TMPDIR e)) fileName
                       in case makeCircularVideo e c inputPath outputPath s2 of
                            (Some err, s3) \<Rightarrow> sendErrorMessage chatID txt_process s3
                          | (None, s3) \<Rightarrow>
                              os_Remove outputPath
                                (let s4 = sendProgressMessage chatID txt_processed s3;
                                     videoNoteParams =
                                       \<lparr>note_chat = chatID,
                                        note_data = InputFileUpload fileName (fileReader_p0a e outputPath),
                                        note_length = defaultVideoSize\<rparr>;
                                     s5 = s4\<lparr>vnotes := vnotes s4 @ [videoNoteParams]\<rparr>
                                 in case bot_SendVideoNote e videoNoteParams of
                                      None \<Rightarrow> s5
                                    | Some err \<Rightarrow>
                                        if Error err = voiceMsgRestrictionErr
                                        then sendErrorMessage chatID txt_forbidden s5
                                        else sendErrorMessage chatID txt_send s5)))))"

text \<open>
  \<^verbatim>\<open>handleVideo\<close>, second program of \<^verbatim>\<open>part_000\<close> (tgbotapi): the note is built from the
  output path, and every send error gets the same text.
\<close>

definition handleVideo_p0b :: "env \<Rightarrow> ctx \<Rightarrow> message \<Rightarrow> state \<Rightarrow> state" where
  "handleVideo_p0b e c message s =
     (let chatID = Chat_ID message in
      case selectAttachment message of
        None \<Rightarrow> sendErrorMessage chatID txt_valid s
      | Some (fileID, fileName0) \<Rightarrow>
          (let fileName = normalizeName fileName0 in
           case bot_GetFile e fileID of
             Inl err \<Rightarrow> sendErrorMessage chatID txt_process s
           | Inr filePath \<Rightarrow>
               (let inputPath = inputPath_of (os_TempDir (TMPDIR e)) chatID fileName in
                case downloadFile e filePath inputPath s of
                  (Some err, s1) \<Rightarrow> sendErrorMessage chatID txt_download s1
                | (None, s1) \<Rightarrow>
                    os_Remove inputPath
                      (let s2 = sendProgressMessage chatID txt_downloaded s1;
                           outputPath = outputPath_of (os_TempDir (TMPDIR e)) fileName
                       in case makeCircularVideo e c inputPath outputPath s2 of
                            (Some err, s3) \<Rightarrow> sendErrorMessage chatID txt_process s3
                          | (None, s3) \<Rightarrow>
                              os_Remove outputPath
                                (let s4 = sendProgressMessage chatID txt_processed s3;
                                     videoNote =
                                       \<lparr>note_chat = chatID,
                                        note_data = FilePath outputPath,
                                        note_length = defaultVideoSize\<rparr>;
                                     s5 = s4\<lparr>vnotes := vnotes s4 @ [videoNote]\<rparr>
                                 in case bot_SendVideoNote e videoNote of
                                      None \<Rightarrow> s5
                                    | Some err \<Rightarrow> sendErrorMessage chatID txt_send s5)))))"

text \<open>
  \<^verbatim>\<open>handleVideo\<close> of \<^verbatim>\<open>part_001\<close>: a failure to open the output ends the request with a
  text of its own. The deferred \<^verbatim>\<open>f.Close()\<close> changes nothing in the state.
\<close>

definition handleVideo_p1 :: "env \<Rightarrow> ctx \<Rightarrow> message \<Rightarrow> state \<Rightarrow> state" where
  "handleVideo_p1 e c message s =
     (let chatID = Chat_ID message in
      case selectAttachment message of
        None \<Rightarrow> sendErrorMessage chatID txt_valid s
      | Some (fileID, fileName0) \<Rightarrow>
          (let fileName = normalizeName fileName0 in
           case bot_GetFile e fileID of
             Inl err \<Rightarrow> sendErrorMessage chatID txt_process s
           | Inr filePath \<Rightarrow>
               (let inputPath = inputPath_of (os_TempDir (TMPDIR e)) chatID fileName in
                case downloadFile e filePath inputPath s of
                  (Some err, s1) \<Rightarrow> sendErrorMessage chatID txt_download s1
                | (None, s1) \<Rightarrow>
                    os_Remove inputPath
                      (let s2 = sendProgressMessage chatID txt_downloaded s1;
                           outputPath = outputPath_of (os_TempDir (TMPDIR e)) fileName
                       in case makeCircularVideo e c inputPath outputPath s2 of
                            (Some err, s3) \<Rightarrow> sendErrorMessage chatID txt_process s3
                          | (None, s3) \<Rightarrow>
                              os_Remove outputPath
                                (let s4 = sendProgressMessage chatID txt_processed s3 in
                                 case fileReader_p1 e outputPath of
                                   Inl err \<Rightarrow> sendErrorMessage chatID txt_open s4
                                 | Inr f \<Rightarrow>
                                     (let videoNoteParams =
                                            \<lparr>note_chat = chatID,
                                             note_data = InputFileUpload fileName f,
                                             note_length = defaultVideoSize\<rparr>;
                                          s5 = s4\<lparr>vnotes := vnotes s4 @ [videoNoteParams]\<rparr>
                                      in case bot_SendVideoNote e videoNoteParams of
                                           None \<Rightarrow> s5
                                         | Some err \<Rightarrow>
                                             if Error err = voiceMsgRestrictionErr
                                             then sendErrorMessage chatID txt_forbidden s5
                                             else sendErrorMessage chatID txt_send s5))))))"

text \<open>
  \<^verbatim>\<open>handleVideo\<close> of \<^verbatim>\<open>main.go\<close>: fixed temp names, no text is ever sent, failures are
  only logged. It dereferences \<^verbatim>\<open>message.Video\<close> without a check; a nil pointer there
  is a panic, the result \<open>None\<close>.
\<close>

definition handleVideo_main :: "env \<Rightarrow> message \<Rightarrow> state \<Rightarrow> state option" where
  "handleVideo_main e message s =
     (case Video message of
        None \<Rightarrow> None
      | Some v \<Rightarrow>
          (let fileID = FileID v in
           case bot_GetFile e fileID of
             Inl err \<Rightarrow> Some s
           | Inr filePath \<Rightarrow>
               (let inputPath = filepath_Join [os_TempDir (TMPDIR e), ''input.mp4''] in
                case downloadFile e filePath inputPath s of
                  (Some err, s1) \<Rightarrow> Some s1
                | (None, s1) \<Rightarrow>
                    Some (os_Remove inputPath
                      (let outputPath = filepath_Join [os_TempDir (TMPDIR e), ''output.mp4''] in
                       case makeCircularVideo_main e inputPath outputPath s1 of
                         (Some err, s2) \<Rightarrow> s2
                       | (None, s2) \<Rightarrow>
                           os_Remove outputPath
                             (let videoNote =
                                    \<lparr>note_chat = Chat_ID message,
                                     note_data = FilePath outputPath,
                                     note_length = 640\<rparr>
                              in s2\<lparr>vnotes := vnotes s2 @ [videoNote]\<rparr>))))))"

section \<open>The bot adapter\<close>

text \<open>
  What each program does with one update. The handler is started as a goroutine and
  nothing waits for it; for a single request that is the handler run to its end.
  \<^verbatim>\<open>defaultHandler\<close> is the same in the first program of \<^verbatim>\<open>part_000\<close> and in \<^verbatim>\<open>part_001\<close>,
  up to the \<^verbatim>\<open>handleVideo\<close> it starts; the second program of \<^verbatim>\<open>part_000\<close> and \<^verbatim>\<open>main.go\<close>
  have the dispatch in the receive loop of \<^verbatim>\<open>main\<close>.
\<close>

definition defaultHandler_p0a :: "env \<Rightarrow> ctx \<Rightarrow> update \<Rightarrow> state \<Rightarrow> state" where
  "defaultHandler_p0a e c upd s =
     (case Message upd of
        None \<Rightarrow> s
      | Some m \<Rightarrow>
          if Video m \<noteq> None \<or> Document m \<noteq> None then handleVideo_p0a e c m s
          else s\<lparr>sent := sent s @ [(Chat_ID m, txt_instruct)]\<rparr>)"

definition defaultHandler_p1 :: "env \<Rightarrow> ctx \<Rightarrow> update \<Rightarrow> state \<Rightarrow> state" where
  "defaultHandler_p1 e c upd s =
     (case Message upd of
        None \<Rightarrow> s
      | Some m \<Rightarrow>
          if Video m \<noteq> None \<or> Document m \<noteq> None then handleVideo_p1 e c m s
          else s\<lparr>sent := sent s @ [(Chat_ID m, txt_instruct)]\<rparr>)"

definition main_loop_p0b :: "env \<Rightarrow> ctx \<Rightarrow> update \<Rightarrow> state \<Rightarrow> state" where
  "main_loop_p0b e c upd s =
     (case Message upd of
        None \<Rightarrow> s
      | Some m \<Rightarrow>
          if Video m \<noteq> None \<or> Document m \<noteq> None then handleVideo_p0b e c m s
          else s\<lparr>sent := sent s @ [(Chat_ID m, txt_instruct)]\<rparr>)"

definition main_loop_main :: "env \<Rightarrow> update \<Rightarrow> state \<Rightarrow> state option" where
  "main_loop_main e upd s =
     (case Message upd of
        None \<Rightarrow> Some s
      | Some m \<Rightarrow>
          if Video m \<noteq> None then handleVideo_main e m s
          else Some s)"

text \<open>
  The process-wide cancellation signal. In \<^verbatim>\<open>main\<close> of both programs of \<^verbatim>\<open>part_000\<close> and of
  \<^verbatim>\<open>part_001\<close>, \<^verbatim>\<open>ctx, cancel := context.WithCancel(context.Background())\<close> makes the one
  context of the process, and a goroutine calls \<^verbatim>\<open>cancel()\<close> when SIGINT or SIGTERM
  arrives: the context is done from the tick of the signal on. \<^verbatim>\<open>main.go\<close> has neither.
\<close>

definition main_ctx :: "env \<Rightarrow> ctx" where
  "main_ctx e = Ctx (signal_at e)"

text \<open>
  How \<^verbatim>\<open>main\<close> hands that context on. The first program of \<^verbatim>\<open>part_000\<close> gives it to
  \<^verbatim>\<open>b.Start(ctx)\<close> and \<^verbatim>\<open>part_001\<close> to \<^verbatim>\<open>b.StartWebhook(ctx)\<close>; the client calls the default
  handler with the context it was started with. The second program of \<^verbatim>\<open>part_000\<close> passes
  it to \<^verbatim>\<open>handleVideo\<close> in its own receive loop.
\<close>

definition main_p0a :: "env \<Rightarrow> update \<Rightarrow> state \<Rightarrow> state" where
  "main_p0a e upd s = defaultHandler_p0a e (main_ctx e) upd s"

definition main_p0b :: "env \<Rightarrow> update \<Rightarrow> state \<Rightarrow> state" where
  "main_p0b e upd s = main_loop_p0b e (main_ctx e) upd s"

definition main_p1 :: "env \<Rightarrow> update \<Rightarrow> state \<Rightarrow> state" where
  "main_p1 e upd s = defaultHandler_p1 e (main_ctx e) upd s"

section \<open>Sample requests\<close>

text \<open>
  A request in which every collaborator succeeds: chat 7 sends a video named
  \<^verbatim>\<open>clip.mp4\<close>, the temp directory is \<^verbatim>\<open>/tmp\<close>, no termination signal arrives, the
  transcoder starts at tick 10, runs for 5 ticks, writes its output and exits with
  status 0. The other samples change one answer each.
\<close>

definition msg0 :: message where
  "msg0 = \<lparr>Chat_ID = 7,
           Video = Some \<lparr>FileID = ''f1'', FileName = ''clip.mp4''\<rparr>,
           Document = None\<rparr>"

definition msg_text :: message where
  "msg_text = \<lparr>Chat_ID = 7, Video = None, Document = None\<rparr>"

definition env0 :: env where
  "env0 = \<lparr>TMPDIR = [],
           Token = ''T'',
           signal_at = None,
           bot_GetFile = (\<lambda>fid. Inr ''videos/file_1.mp4''),
           http_Get = (\<lambda>url. Inr \<lparr>StatusCode = 200, Body = ''data''\<rparr>),
           os_Create = (\<lambda>p. None),
           io_Copy = (\<lambda>r. None),
           cmd_StderrPipe = (\<lambda>cmd. None),
           now = 10,
           proc_start = (\<lambda>cmd. None),
           proc_duration = 5,
           proc_exit = None,
           proc_writes = (\<lambda>cmd. {last (cmd_args cmd)}),
           os_Open = (\<lambda>p. None),
           bot_SendVideoNote = (\<lambda>n. None)\<rparr>"

definition state0 :: state where
  "state0 = \<lparr>files = {}, sent = [], execs = [], killed = [], vnotes = []\<rparr>"

definition never :: ctx where
  "never = Ctx None"

text \<open>The transcoder creates its output file and then exits with a failure.\<close>

definition env_transcode_fails :: env where
  "env_transcode_fails = env0\<lparr>proc_exit := Some (Err ''exit status 1'')\<rparr>"

text \<open>The destination is created, and the copy of the body into it breaks off.\<close>

definition env_copy_fails :: env where
  "env_copy_fails = env0\<lparr>io_Copy := (\<lambda>r. Some (Err ''unexpected EOF''))\<rparr>"

text \<open>The transport fails before any response arrives.\<close>

definition env_get_fails :: env where
  "env_get_fails = env0\<lparr>http_Get := (\<lambda>url. Inl (Err ''dial tcp: i/o timeout''))\<rparr>"

text \<open>
  The file server answers 404 with an error body; the transcoder cannot read that body
  as a video and exits with a failure without writing anything.
\<close>

definition env_404 :: env where
  "env_404 = env0\<lparr>http_Get := (\<lambda>url. Inr \<lparr>StatusCode = 404, Body = ''Not Found''\<rparr>),
                    proc_exit := Some (Err ''exit status 1''),
                    proc_writes := (\<lambda>cmd. {})\<rparr>"



text \<open>The transcoded file cannot be opened, and the platform rejects the empty upload.\<close>

definition env_open_fails :: env where
  "env_open_fails =
     env0\<lparr>os_Open := (\<lambda>p. Some (Err ''open: permission denied'')),
           bot_SendVideoNote :=
             (\<lambda>n. Some (botpkg_bad_request ''Bad Request: file must be non-empty''))\<rparr>"

text \<open>The same file name sent from chat 1 and from chat 2.\<close>

definition msg_chat1 :: message where
  "msg_chat1 = msg0\<lparr>Chat_ID := 1\<rparr>"

definition msg_chat2 :: message where
  "msg_chat2 = msg0\<lparr>Chat_ID := 2\<rparr>"

text \<open>A document without a display name, and one whose name has no extension.\<close>

definition msg_noname :: message where
  "msg_noname = \<lparr>Chat_ID = 7, Video = None,
                 Document = Some \<lparr>FileID = ''f2'', FileName = []\<rparr>\<rparr>"

definition msg_noext :: message where
  "msg_noext = \<lparr>Chat_ID = 7, Video = None,
                Document = Some \<lparr>FileID = ''f3'', FileName = ''holiday''\<rparr>\<rparr>"

text \<open>A display name with parent-directory components.\<close>

definition evil_name :: string where
  "evil_name = ''/../../etc/cron.d/job.mp4''"

text \<open>
  The update that carries the sample video, and the termination signal arriving at
  tick 12, while the sample transcoder (ticks 10 to 15) is running.
\<close>

definition upd0 :: update where
  "upd0 = \<lparr>Message = Some msg0\<rparr>"

definition env_signal :: env where
  "env_signal = env0\<lparr>signal_at := Some 12\<rparr>"

section \<open>Facts about the leaf operations\<close>

text \<open>
  An extension is empty exactly when the last element of the path, the part behind the
  last separator, has no dot.
\<close>

lemma Ext_scan_empty_iff:
  "Ext_scan xs acc = [] \<longleftrightarrow> CHR ''.'' \<notin> set (takeWhile (\<lambda>c. c \<noteq> CHR ''/'') xs)"
  by (induction xs arbitrary: acc) auto

lemma filepath_Ext_empty_iff:
  "filepath_Ext p = [] \<longleftrightarrow> CHR ''.'' \<notin> set (takeWhile (\<lambda>c. c \<noteq> CHR ''/'') (rev p))"
  by (simp add: filepath_Ext_def Ext_scan_empty_iff)

text \<open>What a download and a transcoder run leave untouched, and what they can add.\<close>

lemma downloadFile_keeps:
  "downloadFile e fp d s = (r, s') \<Longrightarrow>
     sent s' = sent s \<and> execs s' = execs s \<and> vnotes s' = vnotes s \<and> killed s' = killed s"
  by (auto simp: downloadFile_def Let_def split: sum.splits option.splits)

lemma downloadFile_files:
  "downloadFile e fp d s = (r, s') \<Longrightarrow> files s' \<subseteq> insert d (files s)"
  by (auto simp: downloadFile_def Let_def split: sum.splits option.splits)

lemma makeCircularVideo_keeps:
  "makeCircularVideo e c i p s = (r, s') \<Longrightarrow> sent s' = sent s \<and> vnotes s' = vnotes s"
  by (auto simp: makeCircularVideo_def cmd_Start_def cmd_Wait_def Let_def
           split: option.splits if_splits)

lemma makeCircularVideo_main_keeps:
  "makeCircularVideo_main e i p s = (r, s') \<Longrightarrow> sent s' = sent s \<and> vnotes s' = vnotes s"
  by (auto simp: makeCircularVideo_main_def cmd_Run_def cmd_Start_def cmd_Wait_def Let_def
           split: option.splits if_splits)

lemma makeCircularVideo_execs:
  "makeCircularVideo e c i p s = (r, s') \<Longrightarrow>
     execs s' = execs s \<or> execs s' = execs s @ [ffmpeg_cmd c i p]"
  by (auto simp: makeCircularVideo_def cmd_Start_def cmd_Wait_def Let_def
           split: option.splits if_splits)

lemma makeCircularVideo_files:
  "makeCircularVideo e c i p s = (r, s') \<Longrightarrow>
     files s' \<subseteq> files s \<union> proc_writes e (ffmpeg_cmd c i p)"
  by (auto simp: makeCircularVideo_def cmd_Start_def cmd_Wait_def Let_def
           split: option.splits if_splits)

text \<open>
  A transcoder run that returns no error was not overtaken by its context: the context
  fires, if ever, no earlier than the process exits.
\<close>

lemma makeCircularVideo_result:
  "makeCircularVideo e c i p s = (r, s') \<Longrightarrow>
     sent s' = sent s \<and> vnotes s' = vnotes s
     \<and> (r = None \<longrightarrow> (\<forall>t. done_at c = Some t \<longrightarrow> now e + proc_duration e \<le> t))"
  by (auto simp: makeCircularVideo_def cmd_Start_def cmd_Wait_def Let_def ffmpeg_cmd_def
                 exec_CommandContext_def ctx_done_by_def ctx_done_before_def
           split: option.splits if_splits)

lemma cancelled_transcode_fails:
  assumes "done_at c = Some t" and "t < now e + proc_duration e"
  shows "fst (makeCircularVideo e c i p s) \<noteq> None"
  using makeCircularVideo_result [of e c i p s "fst (makeCircularVideo e c i p s)"
          "snd (makeCircularVideo e c i p s)"] assms
  by auto

text \<open>
  A transcoder that was started and whose context fires while it runs is terminated with
  a kill, and the invoker returns that as its error; with a context that never fires, and
  in \<^verbatim>\<open>main.go\<close>, which has none, no process is ever killed.
\<close>

lemma ffmpeg_cmd_ctx: "cmd_ctx (ffmpeg_cmd c i p) = Some c"
  by (simp add: ffmpeg_cmd_def exec_CommandContext_def)

lemma ffmpeg_cmd_main_ctx: "cmd_ctx (ffmpeg_cmd_main i p) = None"
  by (simp add: ffmpeg_cmd_main_def exec_Command_def)

lemma makeCircularVideo_in_flight:
  assumes "makeCircularVideo e c i p s = (r, s')"
  shows "sent s' = sent s \<and> vnotes s' = vnotes s
     \<and> (execs s' = execs s \<and> killed s' = killed s \<and> r \<noteq> None
        \<or> execs s' = execs s @ [ffmpeg_cmd c i p]
          \<and> (\<forall>t. done_at c = Some t \<and> now e < t \<and> t < now e + proc_duration e
                   \<and> proc_start e (ffmpeg_cmd c i p) = None
                 \<longrightarrow> r = Some (Err ''signal: killed'')
                     \<and> killed s' = killed s @ [ffmpeg_cmd c i p])
          \<and> (done_at c = None \<longrightarrow> killed s' = killed s))"
proof (cases "cmd_StderrPipe e (ffmpeg_cmd c i p)")
  case (Some er)
  with assms have "r = Some er" and "s' = s"
    by (simp_all add: makeCircularVideo_def Let_def)
  then show ?thesis by simp
next
  case None
  with assms show ?thesis
    by (auto simp: makeCircularVideo_def cmd_Start_def cmd_Wait_def Let_def ffmpeg_cmd_ctx
                   ctx_done_by_def ctx_done_before_def
             split: option.splits if_splits)
qed

lemma makeCircularVideo_main_never_kills:
  "makeCircularVideo_main e i p s = (r, s') \<Longrightarrow> killed s' = killed s"
  by (auto simp: makeCircularVideo_main_def cmd_Run_def cmd_Start_def cmd_Wait_def Let_def
                 ffmpeg_cmd_main_ctx ctx_done_by_def ctx_done_before_def
           split: option.splits if_splits)

lemmas msg_defs = sendErrorMessage_def sendProgressMessage_def os_Remove_def

section \<open>Facts about the handlers\<close>

text \<open>
  Each fact is proved over the whole body of a handler, one branch per return. A request
  whose upload was handed to the client and failed ends with one more text.
\<close>

lemma upload_reply_p0a:
  assumes "handleVideo_p0a e c m s = s'" and "vnotes s' = vnotes s @ [n]"
    and "bot_SendVideoNote e n = Some er"
  shows "sent s' = sent s @ [(Chat_ID m, txt_downloaded), (Chat_ID m, txt_processed),
            (Chat_ID m, if Error er = voiceMsgRestrictionErr then txt_forbidden else txt_send)]"
  using assms
  by (auto simp: handleVideo_p0a_def msg_defs Let_def
           split: option.splits sum.splits prod.splits if_splits
           dest!: downloadFile_keeps makeCircularVideo_keeps)

lemma upload_reply_p1:
  assumes "handleVideo_p1 e c m s = s'" and "vnotes s' = vnotes s @ [n]"
    and "bot_SendVideoNote e n = Some er"
  shows "sent s' = sent s @ [(Chat_ID m, txt_downloaded), (Chat_ID m, txt_processed),
            (Chat_ID m, if Error er = voiceMsgRestrictionErr then txt_forbidden else txt_send)]"
  using assms
  by (auto simp: handleVideo_p1_def fileReader_p1_def msg_defs Let_def
           split: option.splits sum.splits prod.splits if_splits
           dest!: downloadFile_keeps makeCircularVideo_keeps)

lemma upload_reply_p0b:
  assumes "handleVideo_p0b e c m s = s'" and "vnotes s' = vnotes s @ [n]"
    and "bot_SendVideoNote e n = Some er"
  shows "sent s' = sent s @ [(Chat_ID m, txt_downloaded), (Chat_ID m, txt_processed),
            (Chat_ID m, txt_send)]"
  using assms
  by (auto simp: handleVideo_p0b_def msg_defs Let_def
           split: option.splits sum.splits prod.splits if_splits
           dest!: downloadFile_keeps makeCircularVideo_keeps)

lemma main_sends_nothing:
  assumes "handleVideo_main e m s = Some s'"
  shows "sent s' = sent s"
  using assms
  by (auto simp: handleVideo_main_def msg_defs Let_def
           split: option.splits sum.splits prod.splits if_splits
           dest!: downloadFile_keeps makeCircularVideo_main_keeps)

text \<open>
  A handler starts at most one command, the transcoder on the two temp paths of the
  request, and adds no file besides the input path and what the transcoder writes.
\<close>

lemma transcoder_paths_p0a:
  assumes "handleVideo_p0a e c m s = s'" and "selectAttachment m = Some (fileID, fileName)"
  shows "execs s' = execs s
       \<or> execs s' = execs s @
            [ffmpeg_cmd c (inputPath_of (os_TempDir (TMPDIR e)) (Chat_ID m) (normalizeName fileName))
                          (outputPath_of (os_TempDir (TMPDIR e)) (normalizeName fileName))]"
  using assms
  by (auto simp: handleVideo_p0a_def msg_defs Let_def
           split: option.splits sum.splits prod.splits if_splits
           dest!: downloadFile_keeps makeCircularVideo_execs)

lemma transcoder_paths_p0b:
  assumes "handleVideo_p0b e c m s = s'" and "selectAttachment m = Some (fileID, fileName)"
  shows "execs s' = execs s
       \<or> execs s' = execs s @
            [ffmpeg_cmd c (inputPath_of (os_TempDir (TMPDIR e)) (Chat_ID m) (normalizeName fileName))
                          (outputPath_of (os_TempDir (TMPDIR e)) (normalizeName fileName))]"
  using assms
  by (auto simp: handleVideo_p0b_def msg_defs Let_def
           split: option.splits sum.splits prod.splits if_splits
           dest!: downloadFile_keeps makeCircularVideo_execs)

lemma transcoder_paths_p1:
  assumes "handleVideo_p1 e c m s = s'" and "selectAttachment m = Some (fileID, fileName)"
  shows "execs s' = execs s
       \<or> execs s' = execs s @
            [ffmpeg_cmd c (inputPath_of (os_TempDir (TMPDIR e)) (Chat_ID m) (normalizeName fileName))
                          (outputPath_of (os_TempDir (TMPDIR e)) (normalizeName fileName))]"
  using assms
  by (auto simp: handleVideo_p1_def fileReader_p1_def msg_defs Let_def
           split: option.splits sum.splits prod.splits if_splits
           dest!: downloadFile_keeps makeCircularVideo_execs)

lemma files_bound_p0a:
  assumes "handleVideo_p0a e c m s = s'" and "selectAttachment m = Some (fileID, fileName)"
    and "inputPath = inputPath_of (os_TempDir (TMPDIR e)) (Chat_ID m) (normalizeName fileName)"
    and "outputPath = outputPath_of (os_TempDir (TMPDIR e)) (normalizeName fileName)"
  shows "files s' \<subseteq> files s \<union> {inputPath} \<union> proc_writes e (ffmpeg_cmd c inputPath outputPath)"
  using assms
  by (auto simp: handleVideo_p0a_def msg_defs Let_def
           split: option.splits sum.splits prod.splits if_splits
           dest!: downloadFile_files makeCircularVideo_files; blast)

lemma files_bound_p0b:
  assumes "handleVideo_p0b e c m s = s'" and "selectAttachment m = Some (fileID, fileName)"
    and "inputPath = inputPath_of (os_TempDir (TMPDIR e)) (Chat_ID m) (normalizeName fileName)"
    and "outputPath = outputPath_of (os_TempDir (TMPDIR e)) (normalizeName fileName)"
  shows "files s' \<subseteq> files s \<union> {inputPath} \<union> proc_writes e (ffmpeg_cmd c inputPath outputPath)"
  using assms
  by (auto simp: handleVideo_p0b_def msg_defs Let_def
           split: option.splits sum.splits prod.splits if_splits
           dest!: downloadFile_files makeCircularVideo_files; blast)

lemma files_bound_p1:
  assumes "handleVideo_p1 e c m s = s'" and "selectAttachment m = Some (fileID, fileName)"
    and "inputPath = inputPath_of (os_TempDir (TMPDIR e)) (Chat_ID m) (normalizeName fileName)"
    and "outputPath = outputPath_of (os_TempDir (TMPDIR e)) (normalizeName fileName)"
  shows "files s' \<subseteq> files s \<union> {inputPath} \<union> proc_writes e (ffmpeg_cmd c inputPath outputPath)"
  using assms
  by (auto simp: handleVideo_p1_def fileReader_p1_def msg_defs Let_def
           split: option.splits sum.splits prod.splits if_splits
           dest!: downloadFile_files makeCircularVideo_files; blast)

text \<open>
  The output path handed to the transcoder depends on the name alone: two requests with
  the same display name, from whatever chats, get the same one. A name that climbs out
  of its own path element makes the input paths of two chats meet as well.
\<close>

lemma ffmpeg_cmd_output: "last (cmd_args (ffmpeg_cmd c i p)) = p"
  by (simp add: ffmpeg_cmd_def exec_CommandContext_def)

lemma output_path_ignores_chat:
  assumes "selectAttachment m1 = Some (fid1, fileName)"
    and "selectAttachment m2 = Some (fid2, fileName)"
  shows "execs (handleVideo_p0a e c1 m1 s1) = execs s1 @ [cmd1] \<Longrightarrow>
         execs (handleVideo_p0a e c2 m2 s2) = execs s2 @ [cmd2] \<Longrightarrow>
         last (cmd_args cmd1) = last (cmd_args cmd2)"
    and "execs (handleVideo_p0b e c1 m1 s1) = execs s1 @ [cmd1] \<Longrightarrow>
         execs (handleVideo_p0b e c2 m2 s2) = execs s2 @ [cmd2] \<Longrightarrow>
         last (cmd_args cmd1) = last (cmd_args cmd2)"
    and "execs (handleVideo_p1 e c1 m1 s1) = execs s1 @ [cmd1] \<Longrightarrow>
         execs (handleVideo_p1 e c2 m2 s2) = execs s2 @ [cmd2] \<Longrightarrow>
         last (cmd_args cmd1) = last (cmd_args cmd2)"
  using transcoder_paths_p0a [OF refl assms(1), of e c1 s1]
        transcoder_paths_p0a [OF refl assms(2), of e c2 s2]
        transcoder_paths_p0b [OF refl assms(1), of e c1 s1]
        transcoder_paths_p0b [OF refl assms(2), of e c2 s2]
        transcoder_paths_p1 [OF refl assms(1), of e c1 s1]
        transcoder_paths_p1 [OF refl assms(2), of e c2 s2]
  by (auto simp: ffmpeg_cmd_output)

lemma input_paths_of_climbing_names_collide:
  "inputPath_of (os_TempDir []) 1 (normalizeName ''/../clip.mp4'') = ''/tmp/clip.mp4''
   \<and> inputPath_of (os_TempDir []) 2 (normalizeName ''/../clip.mp4'') = ''/tmp/clip.mp4''"
  by code_simp

text \<open>Every command a handler starts carries the handler's context.\<close>

lemma started_with_ctx_p0a:
  assumes "handleVideo_p0a e c m s = s'" and "execs s' = execs s @ pre"
  shows "list_all (\<lambda>cmd. cmd_ctx cmd = Some c) pre"
  using assms
  by (auto simp: handleVideo_p0a_def msg_defs Let_def ffmpeg_cmd_def exec_CommandContext_def
           split: option.splits sum.splits prod.splits if_splits
           dest!: downloadFile_keeps makeCircularVideo_execs)

lemma started_with_ctx_p0b:
  assumes "handleVideo_p0b e c m s = s'" and "execs s' = execs s @ pre"
  shows "list_all (\<lambda>cmd. cmd_ctx cmd = Some c) pre"
  using assms
  by (auto simp: handleVideo_p0b_def msg_defs Let_def ffmpeg_cmd_def exec_CommandContext_def
           split: option.splits sum.splits prod.splits if_splits
           dest!: downloadFile_keeps makeCircularVideo_execs)

lemma started_with_ctx_p1:
  assumes "handleVideo_p1 e c m s = s'" and "execs s' = execs s @ pre"
  shows "list_all (\<lambda>cmd. cmd_ctx cmd = Some c) pre"
  using assms
  by (auto simp: handleVideo_p1_def fileReader_p1_def msg_defs Let_def ffmpeg_cmd_def
                 exec_CommandContext_def
           split: option.splits sum.splits prod.splits if_splits
           dest!: downloadFile_keeps makeCircularVideo_execs)

text \<open>When the context fires before the transcoder exits, nothing is uploaded.\<close>

lemma cancelled_no_upload_p0a:
  assumes "handleVideo_p0a e c m s = s'" and "done_at c = Some t" and "t < now e + proc_duration e"
  shows "vnotes s' = vnotes s"
  using assms
  by (auto simp: handleVideo_p0a_def msg_defs Let_def
           split: option.splits sum.splits prod.splits if_splits
           dest!: downloadFile_keeps makeCircularVideo_result)

lemma cancelled_no_upload_p0b:
  assumes "handleVideo_p0b e c m s = s'" and "done_at c = Some t" and "t < now e + proc_duration e"
  shows "vnotes s' = vnotes s"
  using assms
  by (auto simp: handleVideo_p0b_def msg_defs Let_def
           split: option.splits sum.splits prod.splits if_splits
           dest!: downloadFile_keeps makeCircularVideo_result)

lemma cancelled_no_upload_p1:
  assumes "handleVideo_p1 e c m s = s'" and "done_at c = Some t" and "t < now e + proc_duration e"
  shows "vnotes s' = vnotes s"
  using assms
  by (auto simp: handleVideo_p1_def fileReader_p1_def msg_defs Let_def
           split: option.splits sum.splits prod.splits if_splits
           dest!: downloadFile_keeps makeCircularVideo_result)

text \<open>
  A download that returns an error ends the request with the download-failure text and
  nothing else: no command is started and no note is sent.
\<close>

lemma download_error_reply:
  assumes "selectAttachment m = Some (fileID, fileName)"
    and "bot_GetFile e fileID = Inr filePath"
    and "downloadFile e filePath
           (inputPath_of (os_TempDir (TMPDIR e)) (Chat_ID m) (normalizeName fileName)) s
         = (Some er, s1)"
  shows "handleVideo_p0a e c m s = sendErrorMessage (Chat_ID m) txt_download s1"
    and "handleVideo_p0b e c m s = sendErrorMessage (Chat_ID m) txt_download s1"
    and "handleVideo_p1 e c m s = sendErrorMessage (Chat_ID m) txt_download s1"
    and "sent (sendErrorMessage (Chat_ID m) txt_download s1) = sent s @ [(Chat_ID m, txt_download)]"
    and "execs (sendErrorMessage (Chat_ID m) txt_download s1) = execs s"
    and "vnotes (sendErrorMessage (Chat_ID m) txt_download s1) = vnotes s"
  using assms downloadFile_keeps [OF assms(3)]
  by (simp_all add: handleVideo_p0a_def handleVideo_p0b_def handleVideo_p1_def Let_def
                    sendErrorMessage_def)

text \<open>
  The removals that are registered do run: after a download that returned no error the
  input path is gone when the handler returns, and after a transcoder run that returned
  no error the output path is gone as well.
\<close>

lemma input_removed_after_download:
  assumes "selectAttachment m = Some (fileID, fileName)"
    and "bot_GetFile e fileID = Inr filePath"
    and "inputPath = inputPath_of (os_TempDir (TMPDIR e)) (Chat_ID m) (normalizeName fileName)"
    and "downloadFile e filePath inputPath s = (None, s1)"
  shows "inputPath \<notin> files (handleVideo_p0a e c m s)"
    and "inputPath \<notin> files (handleVideo_p0b e c m s)"
    and "inputPath \<notin> files (handleVideo_p1 e c m s)"
  using assms(1,2,4) unfolding assms(3)
  by (simp_all add: handleVideo_p0a_def handleVideo_p0b_def handleVideo_p1_def Let_def
                    os_Remove_def)

lemma output_removed_after_transcode:
  assumes "selectAttachment m = Some (fileID, fileName)"
    and "bot_GetFile e fileID = Inr filePath"
    and "inputPath = inputPath_of (os_TempDir (TMPDIR e)) (Chat_ID m) (normalizeName fileName)"
    and "outputPath = outputPath_of (os_TempDir (TMPDIR e)) (normalizeName fileName)"
    and "downloadFile e filePath inputPath s = (None, s1)"
    and "makeCircularVideo e c inputPath outputPath
           (sendProgressMessage (Chat_ID m) txt_downloaded s1) = (None, s3)"
  shows "outputPath \<notin> files (handleVideo_p0a e c m s)"
    and "outputPath \<notin> files (handleVideo_p0b e c m s)"
    and "outputPath \<notin> files (handleVideo_p1 e c m s)"
  using assms(1,2,5,6) unfolding assms(3,4)
  by (simp_all add: handleVideo_p0a_def handleVideo_p0b_def handleVideo_p1_def Let_def
                    os_Remove_def)

text \<open>In \<^verbatim>\<open>part_001\<close> a failure to open the transcoded file ends the request.\<close>

lemma open_failure_aborts_p1:
  "sent (handleVideo_p1 env_open_fails never msg0 state0)
       = [(7, ''Video downloaded. Processing...''),
          (7, ''Video processed. Sending...''),
          (7, ''Failed to open the processed video. Please try again.'')]
   \<and> vnotes (handleVideo_p1 env_open_fails never msg0 state0) = []"
  by code_simp

text \<open>
  What the termination signal does to a request: when it arrives while the transcoder the
  handler started is running, the process is killed, the request ends with the
  processing-failure text and nothing is uploaded.
\<close>

lemma killed_in_flight_p0a:
  assumes "handleVideo_p0a e c m s = s'" and "execs s' = execs s @ [cmd]"
    and "proc_start e cmd = None"
    and "done_at c = Some t" and "now e < t" and "t < now e + proc_duration e"
  shows "killed s' = killed s @ [cmd] \<and> vnotes s' = vnotes s
       \<and> sent s' = sent s @ [(Chat_ID m, txt_downloaded), (Chat_ID m, txt_process)]"
  using assms
  by (auto simp: handleVideo_p0a_def msg_defs Let_def
           split: option.splits sum.splits prod.splits if_splits
           dest!: downloadFile_keeps makeCircularVideo_in_flight)

lemma never_killed_p0a:
  assumes "handleVideo_p0a e c m s = s'" and "done_at c = None"
  shows "killed s' = killed s"
  using assms
  by (auto simp: handleVideo_p0a_def msg_defs Let_def
           split: option.splits sum.splits prod.splits if_splits
           dest!: downloadFile_keeps makeCircularVideo_in_flight)

lemma main_go_never_kills:
  assumes "handleVideo_main e m s = Some s'"
  shows "killed s' = killed s"
  using assms
  by (auto simp: handleVideo_main_def msg_defs Let_def
           split: option.splits sum.splits prod.splits if_splits
           dest!: downloadFile_keeps makeCircularVideo_main_never_kills)


lemma killed_in_flight_p0b:
  assumes "handleVideo_p0b e c m s = s'" and "execs s' = execs s @ [cmd]"
    and "proc_start e cmd = None"
    and "done_at c = Some t" and "now e < t" and "t < now e + proc_duration e"
  shows "killed s' = killed s @ [cmd] \<and> vnotes s' = vnotes s
       \<and> sent s' = sent s @ [(Chat_ID m, txt_downloaded), (Chat_ID m, txt_process)]"
  using assms
  by (auto simp: handleVideo_p0b_def msg_defs Let_def
           split: option.splits sum.splits prod.splits if_splits
           dest!: downloadFile_keeps makeCircularVideo_in_flight)

lemma killed_in_flight_p1:
  assumes "handleVideo_p1 e c m s = s'" and "execs s' = execs s @ [cmd]"
    and "proc_start e cmd = None"
    and "done_at c = Some t" and "now e < t" and "t < now e + proc_duration e"
  shows "killed s' = killed s @ [cmd] \<and> vnotes s' = vnotes s
       \<and> sent s' = sent s @ [(Chat_ID m, txt_downloaded), (Chat_ID m, txt_process)]"
  using assms
  by (auto simp: handleVideo_p1_def fileReader_p1_def msg_defs Let_def
           split: option.splits sum.splits prod.splits if_splits
           dest!: downloadFile_keeps makeCircularVideo_in_flight)

lemma never_killed_p0b:
  assumes "handleVideo_p0b e c m s = s'" and "done_at c = None"
  shows "killed s' = killed s"
  using assms
  by (auto simp: handleVideo_p0b_def msg_defs Let_def
           split: option.splits sum.splits prod.splits if_splits
           dest!: downloadFile_keeps makeCircularVideo_in_flight)

lemma never_killed_p1:
  assumes "handleVideo_p1 e c m s = s'" and "done_at c = None"
  shows "killed s' = killed s"
  using assms
  by (auto simp: handleVideo_p1_def fileReader_p1_def msg_defs Let_def
           split: option.splits sum.splits prod.splits if_splits
           dest!: downloadFile_keeps makeCircularVideo_in_flight)

text \<open>The same facts for the programs, from the context \<open>main\<close> makes to the process.\<close>

lemma main_threads_ctx:
  "execs (main_p0a e upd s) = execs s @ pre \<Longrightarrow>
     list_all (\<lambda>cmd. cmd_ctx cmd = Some (main_ctx e)) pre"
  "execs (main_p0b e upd s) = execs s @ pre \<Longrightarrow>
     list_all (\<lambda>cmd. cmd_ctx cmd = Some (main_ctx e)) pre"
  "execs (main_p1 e upd s) = execs s @ pre \<Longrightarrow>
     list_all (\<lambda>cmd. cmd_ctx cmd = Some (main_ctx e)) pre"
  using started_with_ctx_p0a [OF refl, of e "main_ctx e" _ s pre]
        started_with_ctx_p0b [OF refl, of e "main_ctx e" _ s pre]
        started_with_ctx_p1 [OF refl, of e "main_ctx e" _ s pre]
  by (auto simp: main_p0a_def main_p0b_def main_p1_def defaultHandler_p0a_def
                 defaultHandler_p1_def main_loop_p0b_def
           split: option.splits if_splits)

lemma main_kills_in_flight:
  assumes "signal_at e = Some t" and "now e < t" and "t < now e + proc_duration e"
    and "Message upd = Some m" and "proc_start e cmd = None"
  shows "execs (main_p0a e upd s) = execs s @ [cmd] \<Longrightarrow>
           killed (main_p0a e upd s) = killed s @ [cmd] \<and> vnotes (main_p0a e upd s) = vnotes s
           \<and> sent (main_p0a e upd s)
               = sent s @ [(Chat_ID m, txt_downloaded), (Chat_ID m, txt_process)]"
    and "execs (main_p0b e upd s) = execs s @ [cmd] \<Longrightarrow>
           killed (main_p0b e upd s) = killed s @ [cmd] \<and> vnotes (main_p0b e upd s) = vnotes s
           \<and> sent (main_p0b e upd s)
               = sent s @ [(Chat_ID m, txt_downloaded), (Chat_ID m, txt_process)]"
    and "execs (main_p1 e upd s) = execs s @ [cmd] \<Longrightarrow>
           killed (main_p1 e upd s) = killed s @ [cmd] \<and> vnotes (main_p1 e upd s) = vnotes s
           \<and> sent (main_p1 e upd s)
               = sent s @ [(Chat_ID m, txt_downloaded), (Chat_ID m, txt_process)]"
proof -
  have d: "done_at (main_ctx e) = Some t" using assms(1) by (simp add: main_ctx_def)
  note a = assms(5) d assms(2,3)
  show "execs (main_p0a e upd s) = execs s @ [cmd] \<Longrightarrow>
           killed (main_p0a e upd s) = killed s @ [cmd] \<and> vnotes (main_p0a e upd s) = vnotes s
           \<and> sent (main_p0a e upd s)
               = sent s @ [(Chat_ID m, txt_downloaded), (Chat_ID m, txt_process)]"
    using killed_in_flight_p0a [OF refl _ a, of m s] assms(4)
    by (simp add: main_p0a_def defaultHandler_p0a_def split: if_splits)
  show "execs (main_p0b e upd s) = execs s @ [cmd] \<Longrightarrow>
           killed (main_p0b e upd s) = killed s @ [cmd] \<and> vnotes (main_p0b e upd s) = vnotes s
           \<and> sent (main_p0b e upd s)
               = sent s @ [(Chat_ID m, txt_downloaded), (Chat_ID m, txt_process)]"
    using killed_in_flight_p0b [OF refl _ a, of m s] assms(4)
    by (simp add: main_p0b_def main_loop_p0b_def split: if_splits)
  show "execs (main_p1 e upd s) = execs s @ [cmd] \<Longrightarrow>
           killed (main_p1 e upd s) = killed s @ [cmd] \<and> vnotes (main_p1 e upd s) = vnotes s
           \<and> sent (main_p1 e upd s)
               = sent s @ [(Chat_ID m, txt_downloaded), (Chat_ID m, txt_process)]"
    using killed_in_flight_p1 [OF refl _ a, of m s] assms(4)
    by (simp add: main_p1_def defaultHandler_p1_def split: if_splits)
qed

lemma main_without_signal_kills_nothing:
  assumes "signal_at e = None"
  shows "killed (main_p0a e upd s) = killed s"
    and "killed (main_p0b e upd s) = killed s"
    and "killed (main_p1 e upd s) = killed s"
  using never_killed_p0a [OF refl, of "main_ctx e" e _ s]
        never_killed_p0b [OF refl, of "main_ctx e" e _ s]
        never_killed_p1 [OF refl, of "main_ctx e" e _ s] assms
  by (auto simp: main_p0a_def main_p0b_def main_p1_def defaultHandler_p0a_def
                 defaultHandler_p1_def main_loop_p0b_def main_ctx_def
           split: option.splits if_splits)

lemma main_go_loop_never_kills:
  "main_loop_main e upd s = Some s' \<Longrightarrow> killed s' = killed s"
  using main_go_never_kills [of e _ s s']
  by (auto simp: main_loop_main_def split: option.splits if_splits)

lemma invoker_kills_in_flight:
  assumes "done_at c = Some t" and "now e < t" and "t < now e + proc_duration e"
    and "cmd_StderrPipe e (ffmpeg_cmd c i p) = None"
    and "proc_start e (ffmpeg_cmd c i p) = None"
  shows "fst (makeCircularVideo e c i p s) = Some (Err ''signal: killed'')"
    and "killed (snd (makeCircularVideo e c i p s)) = killed s @ [ffmpeg_cmd c i p]"
  using assms
  by (simp_all add: makeCircularVideo_def cmd_Start_def cmd_Wait_def Let_def ffmpeg_cmd_ctx
                    ctx_done_by_def ctx_done_before_def)

section \<open>Cleanup of the temp files\<close>

text \<open>
  Claim C1: once a temp file has been created it is deleted before the handler returns,
  on every exit path; in particular the output file is deleted when the transcode step
  fails after the process has created it. The handlers register each removal only after
  the error check of the step that creates the file, so the failure exits of that very
  step leave the file behind: with a transcoder that writes its output and then exits
  with a failure the output path survives the handler, and with a download whose copy
  breaks off after the destination was created the input path survives it.
\<close>

theorem temp_files_left_on_failure:
  "files (handleVideo_p0a env_transcode_fails never msg0 state0) = {''/tmp/output_clip.mp4''}
   \<and> files (handleVideo_p0b env_transcode_fails never msg0 state0) = {''/tmp/output_clip.mp4''}
   \<and> files (handleVideo_p1 env_transcode_fails never msg0 state0) = {''/tmp/output_clip.mp4''}
   \<and> files (handleVideo_p0a env_copy_fails never msg0 state0) = {''/tmp/input_7_clip.mp4''}
   \<and> files (handleVideo_p1 env_copy_fails never msg0 state0) = {''/tmp/input_7_clip.mp4''}"
  by code_simp

section \<open>Temp paths of concurrent requests\<close>

text \<open>
  Claim C2: two requests from different chats with the same normalised file name have
  distinct input paths and distinct output paths. The input path carries the chat
  identifier, the output path does not: the same name sent from chat 1 and from chat 2
  hands the transcoder two different input paths and one and the same output path.
\<close>

theorem output_paths_collide:
  "Chat_ID msg_chat1 \<noteq> Chat_ID msg_chat2
   \<and> selectAttachment msg_chat1 = selectAttachment msg_chat2
   \<and> execs (handleVideo_p0a env0 never msg_chat1 state0)
       = [ffmpeg_cmd never ''/tmp/input_1_clip.mp4'' ''/tmp/output_clip.mp4'']
   \<and> execs (handleVideo_p0a env0 never msg_chat2 state0)
       = [ffmpeg_cmd never ''/tmp/input_2_clip.mp4'' ''/tmp/output_clip.mp4'']
   \<and> execs (handleVideo_p1 env0 never msg_chat1 state0)
       = [ffmpeg_cmd never ''/tmp/input_1_clip.mp4'' ''/tmp/output_clip.mp4'']
   \<and> execs (handleVideo_p1 env0 never msg_chat2 state0)
       = [ffmpeg_cmd never ''/tmp/input_2_clip.mp4'' ''/tmp/output_clip.mp4'']"
  by code_simp

section \<open>Replies to a failed upload\<close>


section \<open>Messages without an attachment\<close>

text \<open>
  Claim C4: for a message with neither a video nor a document the adapter sends exactly
  one reply, the fixed instruction, creates no temp file and starts no transcoder.
  \<^verbatim>\<open>main.go\<close> has no such reply: its loop does nothing with such a message.
\<close>

theorem main_go_ignores_other_messages:
  "Video msg_text = None \<and> Document msg_text = None
   \<and> main_loop_main env0 \<lparr>Message = Some msg_text\<rparr> state0 = Some state0
   \<and> sent state0 = []"
  by (simp add: main_loop_main_def msg_text_def state0_def)

text \<open>
  Claim C4 as the code has it: in both programs of \<^verbatim>\<open>part_000\<close> and in \<^verbatim>\<open>part_001\<close> a
  message with neither attachment changes the state by exactly one sent text, the
  instruction to the chat of the message; files, commands and notes stay as they were.
  In \<^verbatim>\<open>main.go\<close> nothing is sent and nothing else happens.
\<close>

theorem instructional_reply:
  assumes "Message upd = Some m" and "Video m = None" and "Document m = None"
  shows "defaultHandler_p0a e c upd s
           = s\<lparr>sent := sent s @ [(Chat_ID m, ''Please send a video file to make it circular.'')]\<rparr>
       \<and> defaultHandler_p1 e c upd s
           = s\<lparr>sent := sent s @ [(Chat_ID m, ''Please send a video file to make it circular.'')]\<rparr>
       \<and> main_loop_p0b e c upd s
           = s\<lparr>sent := sent s @ [(Chat_ID m, ''Please send a video file to make it circular.'')]\<rparr>
       \<and> main_loop_main e upd s = Some s"
  using assms
  by (simp add: defaultHandler_p0a_def defaultHandler_p1_def main_loop_p0b_def
                main_loop_main_def txt_instruct_def)

theorem instructional_reply_witness:
  "Message \<lparr>Message = Some msg_text\<rparr> = Some msg_text
   \<and> Video msg_text = None \<and> Document msg_text = None
   \<and> defaultHandler_p0a env0 never \<lparr>Message = Some msg_text\<rparr> state0
       = \<lparr>files = {}, sent = [(7, ''Please send a video file to make it circular.'')],
          execs = [], killed = [], vnotes = []\<rparr>
   \<and> defaultHandler_p1 env0 never \<lparr>Message = Some msg_text\<rparr> state0
       = \<lparr>files = {}, sent = [(7, ''Please send a video file to make it circular.'')],
          execs = [], killed = [], vnotes = []\<rparr>
   \<and> main_loop_p0b env0 never \<lparr>Message = Some msg_text\<rparr> state0
       = \<lparr>files = {}, sent = [(7, ''Please send a video file to make it circular.'')],
          execs = [], killed = [], vnotes = []\<rparr>"
proof -
  have h1: "Message \<lparr>Message = Some msg_text\<rparr> = Some msg_text" by simp
  have h2: "Video msg_text = None" and h3: "Document msg_text = None"
    by (simp_all add: msg_text_def)
  have c: "Chat_ID msg_text = 7" by (simp add: msg_text_def)
  show ?thesis
    using instructional_reply [OF h1 h2 h3, of env0 never state0] h2 h3
    by (simp add: c state0_def)
qed

section \<open>Download failures\<close>

text \<open>
  Claim C5: when the download step fails, a non-success HTTP status included, the
  pipeline sends exactly the download-failure text, never invokes the transcoder and
  leaves no output file. \<^verbatim>\<open>downloadFile\<close> never reads the status: on a 404 answer it
  saves the error body and returns no error, the handler announces the download as done
  and starts the transcoder on that body.
\<close>

theorem not_found_is_not_a_download_failure:
  "sent (handleVideo_p0a env_404 never msg0 state0)
     = [(7, ''Video downloaded. Processing...''),
        (7, ''Failed to process the video. Please try again.'')]
   \<and> length (execs (handleVideo_p0a env_404 never msg0 state0)) = 1
   \<and> sent (handleVideo_p1 env_404 never msg0 state0)
     = [(7, ''Video downloaded. Processing...''),
        (7, ''Failed to process the video. Please try again.'')]
   \<and> length (execs (handleVideo_p1 env_404 never msg0 state0)) = 1"
  by code_simp

section \<open>The transcoder command\<close>

text \<open>
  Claim C6: for every input and output path the invoker builds the executable
  \<^verbatim>\<open>ffmpeg\<close> with the arguments \<^verbatim>\<open>-i <input> -vf <filter> -c:a copy -y <output>\<close>, the
  filter being the crop to the smaller dimension, the scale to 640 by 640 and the pixel
  format yuv420p. This is the command of all four programs (the formatted size of the
  three later ones prints as the literal of \<^verbatim>\<open>main.go\<close>), and it is the command handed
  to \<^verbatim>\<open>Start\<close> or \<^verbatim>\<open>Run\<close>.
\<close>

theorem ffmpeg_argument_list:
  "cmd_name (ffmpeg_cmd c inputPath outputPath) = ''ffmpeg''
   \<and> cmd_args (ffmpeg_cmd c inputPath outputPath)
       = [''ffmpeg'', ''-i'', inputPath,
          ''-vf'', ''crop=min(iw'' @ [CHR 0x5C] @ '',ih):min(iw'' @ [CHR 0x5C]
                   @ '',ih),scale=640:640,format=yuv420p'',
          ''-c:a'', ''copy'', ''-y'', outputPath]
   \<and> cmd_name (ffmpeg_cmd_main inputPath outputPath) = ''ffmpeg''
   \<and> cmd_args (ffmpeg_cmd_main inputPath outputPath)
       = cmd_args (ffmpeg_cmd c inputPath outputPath)
   \<and> execs (snd (makeCircularVideo e c inputPath outputPath s))
       = (if cmd_StderrPipe e (ffmpeg_cmd c inputPath outputPath) = None
          then execs s @ [ffmpeg_cmd c inputPath outputPath] else execs s)
   \<and> execs (snd (makeCircularVideo_main e inputPath outputPath s))
       = execs s @ [ffmpeg_cmd_main inputPath outputPath]"
proof -
  have d: "fmt_d (int defaultVideoSize) = ''640''"
    by (simp add: defaultVideoSize_def fmt_d_def digits.simps)
  have a: "cmd_args (ffmpeg_cmd c inputPath outputPath)
       = [''ffmpeg'', ''-i'', inputPath,
          ''-vf'', ''crop=min(iw'' @ [CHR 0x5C] @ '',ih):min(iw'' @ [CHR 0x5C]
                   @ '',ih),scale=640:640,format=yuv420p'',
          ''-c:a'', ''copy'', ''-y'', outputPath]"
    by (simp add: ffmpeg_cmd_def exec_CommandContext_def crop_filter_def d)
  have b: "cmd_args (ffmpeg_cmd_main inputPath outputPath)
       = cmd_args (ffmpeg_cmd c inputPath outputPath)"
    unfolding a by (simp add: ffmpeg_cmd_main_def exec_Command_def crop_filter_def)
  have n: "cmd_name (ffmpeg_cmd c inputPath outputPath) = ''ffmpeg''"
     "cmd_name (ffmpeg_cmd_main inputPath outputPath) = ''ffmpeg''"
    by (simp_all add: ffmpeg_cmd_def ffmpeg_cmd_main_def exec_Command_def exec_CommandContext_def)
  have e1: "execs (snd (makeCircularVideo e c inputPath outputPath s))
       = (if cmd_StderrPipe e (ffmpeg_cmd c inputPath outputPath) = None
          then execs s @ [ffmpeg_cmd c inputPath outputPath] else execs s)"
    by (auto simp: makeCircularVideo_def cmd_Start_def cmd_Wait_def Let_def split: option.splits)
  have e2: "execs (snd (makeCircularVideo_main e inputPath outputPath s))
       = execs s @ [ffmpeg_cmd_main inputPath outputPath]"
    by (auto simp: makeCircularVideo_main_def cmd_Run_def cmd_Start_def cmd_Wait_def Let_def split: option.splits)
  show ?thesis using a b n e1 e2 by simp
qed

section \<open>The normalised file name\<close>

text \<open>
  Claim C7: the normalised name is \<^verbatim>\<open>video.mp4\<close> when the display name is empty, the
  display name with \<^verbatim>\<open>.mp4\<close> appended when it has no extension, and the display name
  itself otherwise; this one name is used in the input path and in the output path of the
  request. A name has no extension when \<^verbatim>\<open>filepath.Ext\<close> of it is empty, that is, when
  there is no dot behind its last separator. For the three programs that normalise (both of \<^verbatim>\<open>part_000\<close>, and \<^verbatim>\<open>part_001\<close>):
  the only command a handler starts is the transcoder on the input and output paths built
  from the normalised name, and the only file it adds besides what the transcoder writes
  is the download at that input path.
\<close>

theorem normalized_name:
  "normalizeName [] = ''video.mp4''
   \<and> (fileName \<noteq> [] \<and> filepath_Ext fileName = [] \<longrightarrow> normalizeName fileName = fileName @ ''.mp4'')
   \<and> (fileName \<noteq> [] \<and> filepath_Ext fileName \<noteq> [] \<longrightarrow> normalizeName fileName = fileName)
   \<and> (filepath_Ext fileName = []
        \<longleftrightarrow> CHR ''.'' \<notin> set (takeWhile (\<lambda>c. c \<noteq> CHR ''/'') (rev fileName)))
   \<and> (selectAttachment m = Some (fileID, fileName) \<longrightarrow>
        (let inputPath = inputPath_of (os_TempDir (TMPDIR e)) (Chat_ID m) (normalizeName fileName);
             outputPath = outputPath_of (os_TempDir (TMPDIR e)) (normalizeName fileName);
             cmd = ffmpeg_cmd c inputPath outputPath
         in (execs (handleVideo_p0a e c m s) = execs s
              \<or> execs (handleVideo_p0a e c m s) = execs s @ [cmd])
          \<and> (execs (handleVideo_p0b e c m s) = execs s
              \<or> execs (handleVideo_p0b e c m s) = execs s @ [cmd])
          \<and> (execs (handleVideo_p1 e c m s) = execs s
              \<or> execs (handleVideo_p1 e c m s) = execs s @ [cmd])
          \<and> files (handleVideo_p0a e c m s) \<subseteq> files s \<union> {inputPath} \<union> proc_writes e cmd
          \<and> files (handleVideo_p0b e c m s) \<subseteq> files s \<union> {inputPath} \<union> proc_writes e cmd
          \<and> files (handleVideo_p1 e c m s) \<subseteq> files s \<union> {inputPath} \<union> proc_writes e cmd))"
proof -
  have n: "normalizeName [] = ''video.mp4''"
    "fileName \<noteq> [] \<and> filepath_Ext fileName = [] \<longrightarrow> normalizeName fileName = fileName @ ''.mp4''"
    "fileName \<noteq> [] \<and> filepath_Ext fileName \<noteq> [] \<longrightarrow> normalizeName fileName = fileName"
    by (simp_all add: normalizeName_def)
  show ?thesis
    using n filepath_Ext_empty_iff [of fileName]
      transcoder_paths_p0a [OF refl, of m fileID fileName e c s]
      transcoder_paths_p0b [OF refl, of m fileID fileName e c s]
      transcoder_paths_p1 [OF refl, of m fileID fileName e c s]
      files_bound_p0a [OF refl _ refl refl, of m fileID fileName e c s]
      files_bound_p0b [OF refl _ refl refl, of m fileID fileName e c s]
      files_bound_p1 [OF refl _ refl refl, of m fileID fileName e c s]
    unfolding Let_def by blast
qed

theorem normalized_name_witness:
  "normalizeName [] = ''video.mp4''
   \<and> ''holiday'' \<noteq> [] \<and> filepath_Ext ''holiday'' = []
   \<and> normalizeName ''holiday'' = ''holiday.mp4''
   \<and> ''clip.mp4'' \<noteq> [] \<and> filepath_Ext ''clip.mp4'' \<noteq> []
   \<and> normalizeName ''clip.mp4'' = ''clip.mp4''
   \<and> selectAttachment msg_noext = Some (''f3'', ''holiday'')
   \<and> execs (handleVideo_p0a env0 never msg_noext state0)
       = [ffmpeg_cmd never ''/tmp/input_7_holiday.mp4'' ''/tmp/output_holiday.mp4'']
   \<and> execs (handleVideo_p0b env0 never msg_noext state0)
       = [ffmpeg_cmd never ''/tmp/input_7_holiday.mp4'' ''/tmp/output_holiday.mp4'']
   \<and> execs (handleVideo_p1 env0 never msg_noext state0)
       = [ffmpeg_cmd never ''/tmp/input_7_holiday.mp4'' ''/tmp/output_holiday.mp4'']
   \<and> files (handleVideo_p0a env_copy_fails never msg_noext state0) = {''/tmp/input_7_holiday.mp4''}
   \<and> files (handleVideo_p0a env_copy_fails never msg_noext state0)
       \<subseteq> files state0 \<union> {''/tmp/input_7_holiday.mp4''}
         \<union> proc_writes env_copy_fails
             (ffmpeg_cmd never ''/tmp/input_7_holiday.mp4'' ''/tmp/output_holiday.mp4'')"
proof -
  have e1: "filepath_Ext ''holiday'' = []" and e2: "filepath_Ext ''clip.mp4'' \<noteq> []"
    by (simp_all add: filepath_Ext_def)
  have sel: "selectAttachment msg_noext = Some (''f3'', ''holiday'')"
    by (simp add: selectAttachment_def msg_noext_def)
  note t1 = normalized_name [of "''holiday''" msg_noext "''f3''" env0 never state0]
  note t2 = normalized_name [of "''clip.mp4''" msg_noext "''f3''" env0 never state0]
  note t3 = normalized_name [of "''holiday''" msg_noext "''f3''" env_copy_fails never state0]
  have n0: "normalizeName [] = ''video.mp4''" using t1 by simp
  have n1: "normalizeName ''holiday'' = ''holiday.mp4''" using t1 e1 by simp
  have n2: "normalizeName ''clip.mp4'' = ''clip.mp4''" using t2 e2 by simp
  have p1: "inputPath_of (os_TempDir (TMPDIR env0)) (Chat_ID msg_noext) ''holiday.mp4''
              = ''/tmp/input_7_holiday.mp4''"
    and p2: "outputPath_of (os_TempDir (TMPDIR env0)) ''holiday.mp4'' = ''/tmp/output_holiday.mp4''"
    and p3: "inputPath_of (os_TempDir (TMPDIR env_copy_fails)) (Chat_ID msg_noext) ''holiday.mp4''
              = ''/tmp/input_7_holiday.mp4''"
    and p4: "outputPath_of (os_TempDir (TMPDIR env_copy_fails)) ''holiday.mp4''
              = ''/tmp/output_holiday.mp4''"
    by code_simp+
  have x: "execs (handleVideo_p0a env0 never msg_noext state0) \<noteq> execs state0"
     "execs (handleVideo_p0b env0 never msg_noext state0) \<noteq> execs state0"
     "execs (handleVideo_p1 env0 never msg_noext state0) \<noteq> execs state0"
    by code_simp+
  have s0: "execs state0 = []" by (simp add: state0_def)
  from t1 sel x
  have a: "execs (handleVideo_p0a env0 never msg_noext state0)
       = [ffmpeg_cmd never ''/tmp/input_7_holiday.mp4'' ''/tmp/output_holiday.mp4'']"
    "execs (handleVideo_p0b env0 never msg_noext state0)
       = [ffmpeg_cmd never ''/tmp/input_7_holiday.mp4'' ''/tmp/output_holiday.mp4'']"
    "execs (handleVideo_p1 env0 never msg_noext state0)
       = [ffmpeg_cmd never ''/tmp/input_7_holiday.mp4'' ''/tmp/output_holiday.mp4'']"
    by (simp_all add: Let_def n1 p1 p2 s0)
  from t3 sel
  have b: "files (handleVideo_p0a env_copy_fails never msg_noext state0)
       \<subseteq> files state0 \<union> {''/tmp/input_7_holiday.mp4''}
         \<union> proc_writes env_copy_fails
             (ffmpeg_cmd never ''/tmp/input_7_holiday.mp4'' ''/tmp/output_holiday.mp4'')"
    by (simp add: Let_def n1 p3 p4)
  have f: "files (handleVideo_p0a env_copy_fails never msg_noext state0) = {''/tmp/input_7_holiday.mp4''}"
    by code_simp
  show ?thesis using e1 e2 n0 n1 n2 sel a b f by simp
qed

section \<open>Cancellation\<close>

text \<open>
  Claim C8: in every variant the process-wide cancellation signal is threaded into every
  transcoder invocation, so that firing it while a transcode is in flight terminates the
  external process and the invocation returns a failure instead of completing normally.
  \<^verbatim>\<open>main.go\<close> has no such signal: its command is built with \<^verbatim>\<open>exec.Command\<close> and carries
  no context.
\<close>

theorem main_go_has_no_cancellation:
  "handleVideo_main env0 msg0 state0
     = Some \<lparr>files = {}, sent = [],
             execs = [ffmpeg_cmd_main ''/tmp/input.mp4'' ''/tmp/output.mp4''],
             killed = [],
             vnotes = [\<lparr>note_chat = 7, note_data = FilePath ''/tmp/output.mp4'',
                        note_length = 640\<rparr>]\<rparr>
   \<and> cmd_ctx (ffmpeg_cmd_main ''/tmp/input.mp4'' ''/tmp/output.mp4'') = None
   \<and> fst (makeCircularVideo_main env0 ''/tmp/input.mp4'' ''/tmp/output.mp4'' state0) = None"
  by code_simp

text \<open>
  Claim C8 as the code has it, for both programs of \<^verbatim>\<open>part_000\<close> and for \<^verbatim>\<open>part_001\<close>: the
  process-wide cancellation signal, the context \<^verbatim>\<open>main\<close> cancels on SIGINT or SIGTERM, is
  threaded into every transcoder invocation (every command a program starts carries it),
  so that the signal arriving while a started transcoder is in flight terminates the
  external process and the invocation returns a failure instead of completing normally:
  the command joins the killed ones, the invoker returns the kill as its error, the
  request ends with the processing-failure text and nothing is uploaded. Without a
  signal nothing is killed. \<^verbatim>\<open>main.go\<close> has no cancellation signal: its command carries no
  context and the program never terminates the transcoder.
\<close>

theorem cancellation_reaches_transcoder:
  "(execs (main_p0a e upd s) = execs s @ pre \<longrightarrow>
      list_all (\<lambda>cmd. cmd_ctx cmd = Some (main_ctx e)) pre)
   \<and> (execs (main_p0b e upd s) = execs s @ pre \<longrightarrow>
      list_all (\<lambda>cmd. cmd_ctx cmd = Some (main_ctx e)) pre)
   \<and> (execs (main_p1 e upd s) = execs s @ pre \<longrightarrow>
      list_all (\<lambda>cmd. cmd_ctx cmd = Some (main_ctx e)) pre)
   \<and> (signal_at e = Some t \<and> now e < t \<and> t < now e + proc_duration e
        \<and> Message upd = Some m \<and> proc_start e cmd = None \<longrightarrow>
        (execs (main_p0a e upd s) = execs s @ [cmd] \<longrightarrow>
           killed (main_p0a e upd s) = killed s @ [cmd]
           \<and> vnotes (main_p0a e upd s) = vnotes s
           \<and> sent (main_p0a e upd s)
               = sent s @ [(Chat_ID m, txt_downloaded), (Chat_ID m, txt_process)])
      \<and> (execs (main_p0b e upd s) = execs s @ [cmd] \<longrightarrow>
           killed (main_p0b e upd s) = killed s @ [cmd]
           \<and> vnotes (main_p0b e upd s) = vnotes s
           \<and> sent (main_p0b e upd s)
               = sent s @ [(Chat_ID m, txt_downloaded), (Chat_ID m, txt_process)])
      \<and> (execs (main_p1 e upd s) = execs s @ [cmd] \<longrightarrow>
           killed (main_p1 e upd s) = killed s @ [cmd]
           \<and> vnotes (main_p1 e upd s) = vnotes s
           \<and> sent (main_p1 e upd s)
               = sent s @ [(Chat_ID m, txt_downloaded), (Chat_ID m, txt_process)]))
   \<and> (signal_at e = Some t \<and> now e < t \<and> t < now e + proc_duration e
        \<and> cmd_StderrPipe e (ffmpeg_cmd (main_ctx e) inputPath outputPath) = None
        \<and> proc_start e (ffmpeg_cmd (main_ctx e) inputPath outputPath) = None \<longrightarrow>
        fst (makeCircularVideo e (main_ctx e) inputPath outputPath s)
          = Some (Err ''signal: killed'')
        \<and> killed (snd (makeCircularVideo e (main_ctx e) inputPath outputPath s))
          = killed s @ [ffmpeg_cmd (main_ctx e) inputPath outputPath])
   \<and> (signal_at e = None \<longrightarrow>
        killed (main_p0a e upd s) = killed s
        \<and> killed (main_p0b e upd s) = killed s
        \<and> killed (main_p1 e upd s) = killed s)
   \<and> cmd_ctx (ffmpeg_cmd_main inputPath outputPath) = None
   \<and> (main_loop_main e upd s = Some s' \<longrightarrow> killed s' = killed s)"
proof (intro conjI impI; (elim conjE)?)
  show "list_all (\<lambda>cmd. cmd_ctx cmd = Some (main_ctx e)) pre"
    if "execs (main_p0a e upd s) = execs s @ pre"
    using that by (rule main_threads_ctx)
  show "list_all (\<lambda>cmd. cmd_ctx cmd = Some (main_ctx e)) pre"
    if "execs (main_p0b e upd s) = execs s @ pre"
    using that by (rule main_threads_ctx)
  show "list_all (\<lambda>cmd. cmd_ctx cmd = Some (main_ctx e)) pre"
    if "execs (main_p1 e upd s) = execs s @ pre"
    using that by (rule main_threads_ctx)
  show "cmd_ctx (ffmpeg_cmd_main inputPath outputPath) = None"
    by (rule ffmpeg_cmd_main_ctx)
  show "killed s' = killed s" if "main_loop_main e upd s = Some s'"
    using that by (rule main_go_loop_never_kills)
  show "killed (main_p0a e upd s) = killed s" "killed (main_p0b e upd s) = killed s"
       "killed (main_p1 e upd s) = killed s" if "signal_at e = None"
    using that by (rule main_without_signal_kills_nothing)+
next
  assume a: "signal_at e = Some t" "now e < t" "t < now e + proc_duration e"
    and b: "cmd_StderrPipe e (ffmpeg_cmd (main_ctx e) inputPath outputPath) = None"
           "proc_start e (ffmpeg_cmd (main_ctx e) inputPath outputPath) = None"
  have d: "done_at (main_ctx e) = Some t" using a(1) by (simp add: main_ctx_def)
  show "fst (makeCircularVideo e (main_ctx e) inputPath outputPath s) = Some (Err ''signal: killed'')"
    by (rule invoker_kills_in_flight [OF d a(2,3) b])
  show "killed (snd (makeCircularVideo e (main_ctx e) inputPath outputPath s))
          = killed s @ [ffmpeg_cmd (main_ctx e) inputPath outputPath]"
    by (rule invoker_kills_in_flight [OF d a(2,3) b])
next
  assume a: "signal_at e = Some t" "now e < t" "t < now e + proc_duration e"
            "Message upd = Some m" "proc_start e cmd = None"
  note k = main_kills_in_flight [OF a]
  {
    assume x: "execs (main_p0a e upd s) = execs s @ [cmd]"
    show "killed (main_p0a e upd s) = killed s @ [cmd]" "vnotes (main_p0a e upd s) = vnotes s"
      "sent (main_p0a e upd s) = sent s @ [(Chat_ID m, txt_downloaded), (Chat_ID m, txt_process)]"
      using k(1) [OF x] by simp_all
  }
  {
    assume x: "execs (main_p0b e upd s) = execs s @ [cmd]"
    show "killed (main_p0b e upd s) = killed s @ [cmd]" "vnotes (main_p0b e upd s) = vnotes s"
      "sent (main_p0b e upd s) = sent s @ [(Chat_ID m, txt_downloaded), (Chat_ID m, txt_process)]"
      using k(2) [OF x] by simp_all
  }
  {
    assume x: "execs (main_p1 e upd s) = execs s @ [cmd]"
    show "killed (main_p1 e upd s) = killed s @ [cmd]" "vnotes (main_p1 e upd s) = vnotes s"
      "sent (main_p1 e upd s) = sent s @ [(Chat_ID m, txt_downloaded), (Chat_ID m, txt_process)]"
      using k(3) [OF x] by simp_all
  }
qed

theorem cancellation_reaches_transcoder_witness:
  "signal_at env_signal = Some 12
   \<and> now env_signal < 12 \<and> 12 < now env_signal + proc_duration env_signal
   \<and> Message upd0 = Some msg0
   \<and> proc_start env_signal
        (ffmpeg_cmd (Ctx (Some 12)) ''/tmp/input_7_clip.mp4'' ''/tmp/output_clip.mp4'') = None
   \<and> main_ctx env_signal = Ctx (Some 12)
   \<and> main_p0a env_signal upd0 state0
       = \<lparr>files = {''/tmp/output_clip.mp4''},
          sent = [(7, ''Video downloaded. Processing...''),
                  (7, ''Failed to process the video. Please try again.'')],
          execs = [ffmpeg_cmd (Ctx (Some 12)) ''/tmp/input_7_clip.mp4'' ''/tmp/output_clip.mp4''],
          killed = [ffmpeg_cmd (Ctx (Some 12)) ''/tmp/input_7_clip.mp4'' ''/tmp/output_clip.mp4''],
          vnotes = []\<rparr>
   \<and> main_p0b env_signal upd0 state0 = main_p0a env_signal upd0 state0
   \<and> main_p1 env_signal upd0 state0 = main_p0a env_signal upd0 state0
   \<and> list_all (\<lambda>cmd. cmd_ctx cmd = Some (main_ctx env_signal))
        [ffmpeg_cmd (Ctx (Some 12)) ''/tmp/input_7_clip.mp4'' ''/tmp/output_clip.mp4'']
   \<and> fst (makeCircularVideo env_signal (main_ctx env_signal)
             ''/tmp/input_7_clip.mp4'' ''/tmp/output_clip.mp4'' state0)
       = Some (Err ''signal: killed'')
   \<and> signal_at env0 = None
   \<and> killed (main_p0a env0 upd0 state0) = []
   \<and> vnotes (main_p0a env0 upd0 state0)
       = [\<lparr>note_chat = 7,
           note_data = InputFileUpload ''clip.mp4'' (FileReader ''/tmp/output_clip.mp4''),
           note_length = 640\<rparr>]"
proof -
  let ?cmd = "ffmpeg_cmd (Ctx (Some 12)) ''/tmp/input_7_clip.mp4'' ''/tmp/output_clip.mp4''"
  let ?r = "\<lparr>files = {''/tmp/output_clip.mp4''},
          sent = [(7, ''Video downloaded. Processing...''),
                  (7, ''Failed to process the video. Please try again.'')],
          execs = [?cmd], killed = [?cmd], vnotes = []\<rparr>"
  have h1: "signal_at env_signal = Some 12"
    and h2: "now env_signal < 12" "12 < now env_signal + proc_duration env_signal"
    and h3: "Message upd0 = Some msg0"
    and h4: "proc_start env_signal ?cmd = None"
    and h5: "cmd_StderrPipe env_signal ?cmd = None"
    and h6: "main_ctx env_signal = Ctx (Some 12)"
    and h7: "signal_at env0 = None"
    by (simp_all add: env_signal_def env0_def upd0_def main_ctx_def)
  have r1: "main_p0a env_signal upd0 state0 = ?r"
    and r2: "main_p0b env_signal upd0 state0 = ?r"
    and r3: "main_p1 env_signal upd0 state0 = ?r"
    by code_simp+
  have n: "vnotes (main_p0a env0 upd0 state0)
       = [\<lparr>note_chat = 7,
           note_data = InputFileUpload ''clip.mp4'' (FileReader ''/tmp/output_clip.mp4''),
           note_length = 640\<rparr>]"
    by code_simp
  have k0: "killed state0 = []" by (simp add: state0_def)
  note t1 = cancellation_reaches_transcoder
              [of env_signal upd0 state0 "[?cmd]" 12 msg0 ?cmd
                  "''/tmp/input_7_clip.mp4''" "''/tmp/output_clip.mp4''"]
  note t2 = cancellation_reaches_transcoder [of env0 upd0 state0]
  have a: "list_all (\<lambda>cmd. cmd_ctx cmd = Some (main_ctx env_signal)) [?cmd]"
    using t1 r1 by (simp add: state0_def)
  have b: "fst (makeCircularVideo env_signal (main_ctx env_signal)
             ''/tmp/input_7_clip.mp4'' ''/tmp/output_clip.mp4'' state0)
       = Some (Err ''signal: killed'')"
    using t1 h1 h2 h4 h5 by (simp add: h6)
  have c: "killed (main_p0a env0 upd0 state0) = []"
    using t2 h7 k0 by simp
  show ?thesis
    using h1 h2 h3 h4 h6 h7 r1 r2 r3 a b c n by simp
qed

section \<open>Opening the transcoded file\<close>

text \<open>
  Claim C9: in the first program of \<^verbatim>\<open>part_000\<close>, when opening the transcoded file for
  the upload fails, the pipeline neither stops nor sends a text for that step:
  \<^verbatim>\<open>fileReader\<close> returns a reader over no bytes and the upload is attempted with it. The
  request is one whose download and transcode returned no error; the texts sent are the
  two progress texts and, when the upload itself fails, the text for that.
\<close>

theorem open_failure_is_swallowed:
  assumes "selectAttachment m = Some (fileID, fileName)"
    and "bot_GetFile e fileID = Inr filePath"
    and "inputPath = inputPath_of (os_TempDir (TMPDIR e)) (Chat_ID m) (normalizeName fileName)"
    and "outputPath = outputPath_of (os_TempDir (TMPDIR e)) (normalizeName fileName)"
    and "downloadFile e filePath inputPath s = (None, s1)"
    and "makeCircularVideo e c inputPath outputPath
           (sendProgressMessage (Chat_ID m) txt_downloaded s1) = (None, s3)"
    and "os_Open e outputPath = Some er"
    and "note = \<lparr>note_chat = Chat_ID m,
                  note_data = InputFileUpload (normalizeName fileName) (BytesReader []),
                  note_length = 640\<rparr>"
  shows "fileReader_p0a e outputPath = BytesReader []
       \<and> vnotes (handleVideo_p0a e c m s) = vnotes s @ [note]
       \<and> sent (handleVideo_p0a e c m s)
           = sent s @ [(Chat_ID m, txt_downloaded), (Chat_ID m, txt_processed)]
             @ (case bot_SendVideoNote e note of
                  None \<Rightarrow> []
                | Some er' \<Rightarrow>
                    [(Chat_ID m, if Error er' = voiceMsgRestrictionErr
                                 then txt_forbidden else txt_send)])"
proof -
  have r: "fileReader_p0a e outputPath = BytesReader []"
    using assms(7) by (simp add: fileReader_p0a_def)
  have k1: "sent s1 = sent s" "vnotes s1 = vnotes s"
    using downloadFile_keeps [OF assms(5)] by simp_all
  have k3: "sent s3 = sent s @ [(Chat_ID m, txt_downloaded)]" "vnotes s3 = vnotes s"
    using makeCircularVideo_keeps [OF assms(6)] k1 by (simp_all add: sendProgressMessage_def)
  show ?thesis
    using assms(1,2,5,6) r k3
    unfolding assms(8) handleVideo_p0a_def
    by (simp add: Let_def assms(3) [symmetric] assms(4) [symmetric] msg_defs defaultVideoSize_def
             split: option.splits)
qed

theorem open_failure_is_swallowed_witness:
  "selectAttachment msg0 = Some (''f1'', ''clip.mp4'')
   \<and> bot_GetFile env_open_fails ''f1'' = Inr ''videos/file_1.mp4''
   \<and> os_Open env_open_fails ''/tmp/output_clip.mp4'' = Some (Err ''open: permission denied'')
   \<and> fileReader_p0a env_open_fails ''/tmp/output_clip.mp4'' = BytesReader []
   \<and> vnotes (handleVideo_p0a env_open_fails never msg0 state0)
       = [\<lparr>note_chat = 7, note_data = InputFileUpload ''clip.mp4'' (BytesReader []),
           note_length = 640\<rparr>]
   \<and> sent (handleVideo_p0a env_open_fails never msg0 state0)
       = [(7, ''Video downloaded. Processing...''),
          (7, ''Video processed. Sending...''),
          (7, ''Failed to send the processed video. Please try again.'')]"
proof -
  let ?i = "''/tmp/input_7_clip.mp4''" and ?p = "''/tmp/output_clip.mp4''"
  let ?s1 = "\<lparr>files = {?i}, sent = [], execs = [], killed = [], vnotes = []\<rparr>"
  let ?s3 = "\<lparr>files = {?i, ?p}, sent = [(7, ''Video downloaded. Processing...'')],
              execs = [ffmpeg_cmd never ?i ?p], killed = [], vnotes = []\<rparr>"
  let ?n = "\<lparr>note_chat = Chat_ID msg0,
             note_data = InputFileUpload (normalizeName ''clip.mp4'') (BytesReader []),
             note_length = 640\<rparr>"
  have h1: "selectAttachment msg0 = Some (''f1'', ''clip.mp4'')"
    by (simp add: selectAttachment_def msg0_def)
  have h2: "bot_GetFile env_open_fails ''f1'' = Inr ''videos/file_1.mp4''"
    by (simp add: env_open_fails_def env0_def)
  have h3: "?i = inputPath_of (os_TempDir (TMPDIR env_open_fails)) (Chat_ID msg0) (normalizeName ''clip.mp4'')"
    by code_simp
  have h4: "?p = outputPath_of (os_TempDir (TMPDIR env_open_fails)) (normalizeName ''clip.mp4'')"
    by code_simp
  have h5: "downloadFile env_open_fails ''videos/file_1.mp4'' ?i state0 = (None, ?s1)"
    by code_simp
  have h6: "makeCircularVideo env_open_fails never ?i ?p
              (sendProgressMessage (Chat_ID msg0) txt_downloaded ?s1) = (None, ?s3)"
    by code_simp
  have h7: "os_Open env_open_fails ?p = Some (Err ''open: permission denied'')"
    by (simp add: env_open_fails_def env0_def)
  have n: "?n = \<lparr>note_chat = 7, note_data = InputFileUpload ''clip.mp4'' (BytesReader []),
           note_length = 640\<rparr>"
    by code_simp
  have b: "bot_SendVideoNote env_open_fails ?n
             = Some (Err ''bad request, Bad Request: file must be non-empty'')"
    by (simp add: env_open_fails_def env0_def botpkg_bad_request_def)
  have c: "Chat_ID msg0 = 7" "sent state0 = []" "vnotes state0 = []"
    by (simp_all add: msg0_def state0_def)
  show ?thesis
    using open_failure_is_swallowed [OF h1 h2 h3 h4 h5 h6 h7 refl] h1 h2 h7
    unfolding n
    by (simp add: b [unfolded n] c txt_downloaded_def txt_processed_def txt_send_def
                  voiceMsgRestrictionErr_def)
qed

section \<open>Display names in temp paths\<close>

text \<open>
  Claim C10: the display name goes into the temp paths as it is, and there is a name for
  which the joined input and output paths do not lie under the temp directory. With the
  default temp directory and a name that climbs with parent-directory components, both
  paths leave it.
\<close>

theorem display_name_escapes_temp_dir:
  "\<exists>fileName.
      \<not> prefix (os_TempDir [] @ ''/'') (inputPath_of (os_TempDir []) 7 (normalizeName fileName))
    \<and> \<not> prefix (os_TempDir [] @ ''/'') (outputPath_of (os_TempDir []) (normalizeName fileName))"
proof -
  have "inputPath_of (os_TempDir []) 7 (normalizeName evil_name) = ''/etc/cron.d/job.mp4''"
    by code_simp
  moreover have "outputPath_of (os_TempDir []) (normalizeName evil_name) = ''/etc/cron.d/job.mp4''"
    by code_simp
  moreover have "\<not> prefix (os_TempDir [] @ ''/'') ''/etc/cron.d/job.mp4''"
    by (simp add: os_TempDir_def)
  ultimately show ?thesis by metis
qed

end
